theory Spec2Isabelle
  imports Complex_Main
begin

unbundle bit_operations_syntax

section \<open>The environment of exechelp-posix.c\<close>

text \<open>
  The functions of \<^verbatim>\<open>common/exechelp-posix.c\<close> talk to the operating system.
  The model makes that explicit: a \<open>world\<close> carries the C global \<open>errno\<close>, the
  process-wide list \<open>terminated_children\<close>, the descriptor table, the list of answers
  the environment gives to the successive fallible calls (system calls and allocator
  calls) and the trace of the calls made so far. Every C function becomes a function
  that takes the world and returns its result with the new world. Integers of the C
  code are HOL integers: no function of the file computes a value out of the range of
  its C type from values in range.
\<close>

subsection \<open>Platform constants\<close>

text \<open>Values of \<^verbatim>\<open>errno.h\<close>, \<^verbatim>\<open>signal.h\<close> and \<^verbatim>\<open>sys/wait.h\<close> on Linux.\<close>

definition EINTR :: int where "EINTR = 4"

definition EBADF :: int where "EBADF = 9"

definition ENOMEM :: int where "ENOMEM = 12"

definition ENOSYS :: int where "ENOSYS = 38"

definition SIGTERM :: int where "SIGTERM = 15"

definition WNOHANG :: int where "WNOHANG = 1"

text \<open>
  The status macros of \<^verbatim>\<open>sys/wait.h\<close> (glibc): a child exited normally when the
  low seven bits of the status are zero, and its exit code is the second byte.
\<close>

definition WIFEXITED :: "int \<Rightarrow> bool" where
  "WIFEXITED status = (status AND 0x7f = 0)"

definition WEXITSTATUS :: "int \<Rightarrow> int" where
  "WEXITSTATUS status = drop_bit 8 (status AND 0xff00)"

subsection \<open>Error codes\<close>

text \<open>
  The error codes of libgpg-error that the file uses. \<open>GPG_ERR_SYSTEM e\<close> stands for
  the code libgpg-error derives from the errno value \<open>e\<close>. \<^verbatim>\<open>gpg_err_make\<close> only adds
  the constant error source to a code, so \<^verbatim>\<open>gpg_error_t\<close> is modelled by the code.
\<close>

datatype gpg_err_code =
    GPG_ERR_NO_ERROR
  | GPG_ERR_GENERAL
  | GPG_ERR_INV_VALUE
  | GPG_ERR_BUG
  | GPG_ERR_TIMEOUT
  | GPG_ERR_CONFIGURATION
  | GPG_ERR_INV_FLAG
  | GPG_ERR_UNFINISHED
  | GPG_ERR_UNKNOWN_COMMAND
  | GPG_ERR_MISSING_ERRNO
  | GPG_ERR_SYSTEM int

definition gpg_err_code_from_errno :: "int \<Rightarrow> gpg_err_code" where
  "gpg_err_code_from_errno e = (if e = 0 then GPG_ERR_NO_ERROR else GPG_ERR_SYSTEM e)"

subsection \<open>Calls, answers and the world\<close>

text \<open>The calls the trace records, with their arguments.\<close>

datatype call =
    PreSyscall
  | PostSyscall
  | Kill int int
  | Waitpid int int
  | Close int
  | Fstat int
  | Alloc nat
  | Realloc nat
  | Free string
  | Getuid
  | Geteuid
  | Access string
  | Fork
  | Pipe
  | Socketpair
  | Dup int
  | LogError string "string list" "int list"

text \<open>
  An answer of the environment to one fallible call:
  \<^item> \<open>Err e\<close>: the call fails (returns \<open>-1\<close>, or \<open>NULL\<close> for an allocator) and sets
    \<open>errno\<close> to \<open>e\<close>;
  \<^item> \<open>Ok v\<close>: the call succeeds and returns \<open>v\<close> (the pid of \<^verbatim>\<open>fork\<close>, the descriptor
    of \<^verbatim>\<open>dup\<close>; for \<^verbatim>\<open>waitpid\<close> it is the return value 0 of \<^verbatim>\<open>WNOHANG\<close>: no child
    has changed state);
  \<^item> \<open>Waited p st\<close>: \<^verbatim>\<open>waitpid\<close> returns \<open>p\<close> and stores the status \<open>st\<close>;
  \<^item> \<open>Pair a b\<close>: \<^verbatim>\<open>pipe\<close> or \<^verbatim>\<open>socketpair\<close> succeeds with the descriptors \<open>a\<close>, \<open>b\<close>.

  An exhausted list answers \<open>Err ENOSYS\<close>. A call that only succeeds or fails (an
  allocator, \<^verbatim>\<open>access\<close>) succeeds on every answer but \<open>Err\<close>; for the other calls an
  answer of a shape the call cannot produce is read as \<open>Err ENOSYS\<close>.
\<close>

datatype answer = Err int | Ok int | Waited int int | Pair int int

record world =
  errno :: int
  answers :: "answer list"
  trace :: "call list"
  terminated_children :: "(int \<times> int) list"
  open_fds :: "int set"
  proc_self_fd :: "string list option"
  rlimit_nofile :: "int option"
  sc_open_max :: int
  use_npth :: bool
  uid :: int
  euid :: int

text \<open>
  \<open>open_fds\<close> is the descriptor table. \<open>proc_self_fd\<close> holds the names of the entries
  of the directory \<^verbatim>\<open>/proc/self/fd\<close> (\<open>None\<close> when it cannot be opened),
  \<open>rlimit_nofile\<close> the hard limit \<^verbatim>\<open>getrlimit (RLIMIT_NOFILE)\<close> reports, as the \<^verbatim>\<open>int\<close> the
  code stores (\<open>None\<close> when the call fails), \<open>sc_open_max\<close> the value of
  \<^verbatim>\<open>sysconf (_SC_OPEN_MAX)\<close>. \<open>use_npth\<close> says whether the file was compiled with
  \<^verbatim>\<open>USE_NPTH\<close>; \<open>uid\<close> and \<open>euid\<close> are the values of \<^verbatim>\<open>getuid\<close> and \<^verbatim>\<open>geteuid\<close>.
\<close>

definition called :: "call \<Rightarrow> world \<Rightarrow> world" where
  "called c w = w\<lparr>trace := trace w @ [c]\<rparr>"

definition next_answer :: "world \<Rightarrow> answer \<times> world" where
  "next_answer w =
     (case answers w of
        [] \<Rightarrow> (Err ENOSYS, w)
      | a # as \<Rightarrow> (a, w\<lparr>answers := as\<rparr>))"

definition gpg_err_code_from_syserror :: "world \<Rightarrow> gpg_err_code" where
  "gpg_err_code_from_syserror w =
     (if errno w = 0 then GPG_ERR_MISSING_ERRNO else GPG_ERR_SYSTEM (errno w))"

text \<open>\<^verbatim>\<open>log_error\<close> with its format, its string arguments and its integer arguments.\<close>

definition log_error :: "string \<Rightarrow> string list \<Rightarrow> int list \<Rightarrow> world \<Rightarrow> world" where
  "log_error msg strs ints w = called (LogError msg strs ints) w"

definition xfree :: "string \<Rightarrow> world \<Rightarrow> world" where
  "xfree what w = called (Free what) w"

text \<open>
  The hooks around blocking system calls (\<^verbatim>\<open>pre_syscall\<close>, \<^verbatim>\<open>post_syscall\<close>) call
  a function pointer of the cooperative scheduler; the model records the call.
\<close>

definition pre_syscall :: "world \<Rightarrow> world" where
  "pre_syscall w = called PreSyscall w"

definition post_syscall :: "world \<Rightarrow> world" where
  "post_syscall w = called PostSyscall w"

text \<open>\<^verbatim>\<open>kill (pid, sig)\<close>: 0, or \<open>-1\<close> with \<open>errno\<close> set.\<close>

definition sys_kill :: "int \<Rightarrow> int \<Rightarrow> world \<Rightarrow> int \<times> world" where
  "sys_kill p sig w =
     (case next_answer (called (Kill p sig) w) of
        (Ok v, w') \<Rightarrow> (0, w')
      | (Err e, w') \<Rightarrow> (-1, w'\<lparr>errno := e\<rparr>)
      | (_, w') \<Rightarrow> (-1, w'\<lparr>errno := ENOSYS\<rparr>))"

text \<open>
  \<^verbatim>\<open>waitpid (pid, &status, options)\<close>: the result is the return value and the status
  stored; the status is 0 in the model when the call stores none (the code reads it
  only after a positive return value).
\<close>

definition sys_waitpid :: "int \<Rightarrow> int \<Rightarrow> world \<Rightarrow> (int \<times> int) \<times> world" where
  "sys_waitpid p options w =
     (case next_answer (called (Waitpid p options) w) of
        (Waited q st, w') \<Rightarrow> ((q, st), w')
      | (Ok v, w') \<Rightarrow> ((0, 0), w')
      | (Err e, w') \<Rightarrow> ((-1, 0), w'\<lparr>errno := e\<rparr>)
      | (Pair a b, w') \<Rightarrow> ((-1, 0), w'\<lparr>errno := ENOSYS\<rparr>))"

text \<open>
  The loop \<^verbatim>\<open>while ((i = waitpid (...)) == -1 && errno == EINTR);\<close>. Each turn takes
  one answer, and an exhausted list answers \<open>ENOSYS\<close>, so the loop ends.
\<close>

lemma sys_waitpid_answers:
  "sys_waitpid p options w = (r, w') \<Longrightarrow> answers w \<noteq> [] \<Longrightarrow>
     length (answers w') < length (answers w)"
  by (auto simp: sys_waitpid_def next_answer_def called_def
      split: list.splits answer.splits)

lemma sys_waitpid_exhausted:
  "sys_waitpid p options w = (r, w') \<Longrightarrow> answers w = [] \<Longrightarrow> errno w' = ENOSYS"
  by (auto simp: sys_waitpid_def next_answer_def called_def
      split: list.splits answer.splits)

function waitpid_retry :: "int \<Rightarrow> int \<Rightarrow> world \<Rightarrow> (int \<times> int) \<times> world" where
  "waitpid_retry p options w =
     (case sys_waitpid p options w of
        ((i, st), w') \<Rightarrow>
          if i = -1 \<and> errno w' = EINTR then waitpid_retry p options w'
          else ((i, st), w'))"
  by pat_completeness auto
termination
proof (relation "measure (\<lambda>(p, options, w). length (answers w))")
  show "wf (measure (\<lambda>(p, options, w). length (answers w)))" by simp
next
  fix p options w x w' and i :: int
  assume b: "(x, w') = sys_waitpid p options w"
    and c: "i = - 1 \<and> errno w' = EINTR"
  from b have a: "sys_waitpid p options w = (x, w')" by simp
  have "answers w \<noteq> []"
  proof
    assume "answers w = []"
    with a have "errno w' = ENOSYS" by (rule sys_waitpid_exhausted)
    with c show False by (simp add: EINTR_def ENOSYS_def)
  qed
  with a have "length (answers w') < length (answers w)"
    by (rule sys_waitpid_answers)
  then show "((p, options, w'), (p, options, w)) \<in> measure (\<lambda>(p, options, w). length (answers w))"
    by simp
qed

declare waitpid_retry.simps [simp del]

section \<open>Process handles\<close>

text \<open>
  \<^verbatim>\<open>struct gnupg_process\<close>. The flag word is a set of the flag bits, whose values
  are in \<^verbatim>\<open>exechelp.h\<close>.
\<close>

datatype spawn_flag =
    GNUPG_PROCESS_DETACHED
  | GNUPG_PROCESS_STDIN_PIPE
  | GNUPG_PROCESS_STDOUT_PIPE
  | GNUPG_PROCESS_STDERR_PIPE
  | GNUPG_PROCESS_STDINOUT_SOCKETPAIR
  | GNUPG_PROCESS_STDIN_NULL
  | GNUPG_PROCESS_STDOUT_NULL
  | GNUPG_PROCESS_STDERR_NULL
  | GNUPG_PROCESS_STREAM_NONBLOCK

record gnupg_process =
  pgmname :: string
  terminated :: bool
  flags :: "spawn_flag set"
  pid :: int
  fd_in :: int
  fd_out :: int
  fd_err :: int
  wstatus :: int

definition process_kill :: "gnupg_process \<Rightarrow> int \<Rightarrow> world \<Rightarrow> gpg_err_code \<times> world" where
  "process_kill process sig w =
     (case sys_kill (pid process) sig (pre_syscall w) of
        (r, w') \<Rightarrow>
          ((if r < 0 then gpg_err_code_from_syserror w' else GPG_ERR_NO_ERROR),
           post_syscall w'))"

definition gnupg_process_terminate :: "gnupg_process \<Rightarrow> world \<Rightarrow> gpg_err_code \<times> world" where
  "gnupg_process_terminate process w = process_kill process SIGTERM w"

text \<open>
  \<^verbatim>\<open>gnupg_process_get_fds\<close>: \<open>r_fd_in\<close>, \<open>r_fd_out\<close>, \<open>r_fd_err\<close> say whether the caller
  passed a place for the descriptor (a pointer that is not \<open>NULL\<close>); the result holds
  what was stored there.
\<close>

definition gnupg_process_get_fds ::
  "gnupg_process \<Rightarrow> bool \<Rightarrow> bool \<Rightarrow> bool \<Rightarrow>
     gpg_err_code \<times> (int option \<times> int option \<times> int option) \<times> gnupg_process" where
  "gnupg_process_get_fds process r_fd_in r_fd_out r_fd_err =
     (let (o_in, p1) = (if r_fd_in then (Some (fd_in process), process\<lparr>fd_in := -1\<rparr>)
                        else (None, process));
          (o_out, p2) = (if r_fd_out then (Some (fd_out p1), p1\<lparr>fd_out := -1\<rparr>)
                         else (None, p1));
          (o_err, p3) = (if r_fd_err then (Some (fd_err p2), p2\<lparr>fd_err := -1\<rparr>)
                         else (None, p2))
      in (GPG_ERR_NO_ERROR, (o_in, o_out, o_err), p3))"

definition gnupg_process_wait ::
  "gnupg_process \<Rightarrow> int \<Rightarrow> world \<Rightarrow> (gpg_err_code \<times> gnupg_process) \<times> world" where
  "gnupg_process_wait process hang w =
     (if terminated process then ((GPG_ERR_NO_ERROR, process), w)
      else
        (case waitpid_retry (pid process) (if hang \<noteq> 0 then 0 else WNOHANG) (pre_syscall w) of
           ((p, status), w1) \<Rightarrow>
             (let w2 = post_syscall w1 in
              if p = -1 then
                ((gpg_err_code_from_syserror w2, process),
                 log_error ''waiting for process %d to terminate failed: %s'' [] [p] w2)
              else if p = 0 then ((GPG_ERR_TIMEOUT, process), w2)
              else ((GPG_ERR_NO_ERROR, process\<lparr>terminated := True, wstatus := status\<rparr>), w2))))"

text \<open>\<^verbatim>\<open>gnupg_process_release\<close>; \<open>None\<close> is the \<open>NULL\<close> handle.\<close>

definition gnupg_process_release :: "gnupg_process option \<Rightarrow> world \<Rightarrow> world" where
  "gnupg_process_release h w =
     (case h of
        None \<Rightarrow> w
      | Some process \<Rightarrow>
          (let w1 = (if terminated process then
                       (case gnupg_process_terminate process w of
                          (ec, wa) \<Rightarrow> snd (gnupg_process_wait process 1 wa))
                     else w)
           in xfree ''process'' w1))"

section \<open>Waiting for one child\<close>

text \<open>
  \<^verbatim>\<open>gnupg_wait_process\<close> calls \<^verbatim>\<open>npth_waitpid\<close> once when compiled with
  \<^verbatim>\<open>USE_NPTH\<close>, and runs the retry loop otherwise.
\<close>

definition waitpid_call :: "int \<Rightarrow> int \<Rightarrow> world \<Rightarrow> (int \<times> int) \<times> world" where
  "waitpid_call p options w =
     (if use_npth w then sys_waitpid p options w else waitpid_retry p options w)"

text \<open>
  \<open>r_exitcode\<close> says whether the caller passed a place for the exit code; the
  result holds what was stored there.
\<close>

definition gnupg_wait_process ::
  "string \<Rightarrow> int \<Rightarrow> int \<Rightarrow> bool \<Rightarrow> world \<Rightarrow> (gpg_err_code \<times> int option) \<times> world" where
  "gnupg_wait_process pgm p hang r_exitcode w =
     (let slot = (if r_exitcode then Some (-1) else None) in
      if p = -1 then ((GPG_ERR_INV_VALUE, slot), w)
      else
        (case waitpid_call p (if hang \<noteq> 0 then 0 else WNOHANG) w of
           ((i, status), w1) \<Rightarrow>
             if i = -1 then
               ((gpg_err_code_from_errno (errno w1), slot),
                log_error ''waiting for process %d to terminate failed: %s'' [] [p] w1)
             else if i = 0 then ((GPG_ERR_TIMEOUT, slot), w1)
             else if WIFEXITED status \<and> WEXITSTATUS status = 127 then
               ((GPG_ERR_CONFIGURATION, slot),
                log_error ''error running %s: probably not installed'' [pgm] [] w1)
             else if WIFEXITED status \<and> WEXITSTATUS status \<noteq> 0 then
               (if \<not> r_exitcode then
                  ((GPG_ERR_GENERAL, slot),
                   log_error ''error running %s: exit status %d'' [pgm] [WEXITSTATUS status] w1)
                else ((GPG_ERR_GENERAL, Some (WEXITSTATUS status)), w1))
             else if \<not> WIFEXITED status then
               ((GPG_ERR_GENERAL, slot),
                log_error ''error running %s: terminated'' [pgm] [] w1)
             else ((GPG_ERR_NO_ERROR, (if r_exitcode then Some 0 else None)), w1)))"

section \<open>Closing descriptors\<close>

text \<open>The descriptors closed by the calls of a trace, in order.\<close>

definition closes_of :: "call list \<Rightarrow> int list" where
  "closes_of tr = concat (map (\<lambda>c. case c of Close fd \<Rightarrow> [fd] | _ \<Rightarrow> []) tr)"

text \<open>
  \<^verbatim>\<open>atoi\<close> on a string that starts with a digit: the value of its leading digits.
\<close>

fun atoi_from :: "int \<Rightarrow> string \<Rightarrow> int" where
  "atoi_from acc [] = acc"
| "atoi_from acc (c # cs) =
     (if 48 \<le> (of_char c :: nat) \<and> (of_char c :: nat) \<le> 57
      then atoi_from (acc * 10 + (of_char c - 48)) cs
      else acc)"

definition atoi :: "string \<Rightarrow> int" where
  "atoi s = atoi_from 0 s"

text \<open>
  The loop of \<^verbatim>\<open>get_max_fds\<close> over the entries of \<^verbatim>\<open>/proc/self/fd\<close>: an entry whose
  name does not start with a digit is skipped, and \<open>max_fds\<close> becomes the largest
  number read.
\<close>

fun scan_proc_fd :: "string list \<Rightarrow> int \<Rightarrow> int" where
  "scan_proc_fd [] m = m"
| "scan_proc_fd (s # ss) m =
     (if s = [] \<or> (of_char (hd s) :: nat) < 48 \<or> 57 < (of_char (hd s) :: nat)
      then scan_proc_fd ss m
      else scan_proc_fd ss (if m < atoi s then atoi s else m))"

text \<open>
  \<^verbatim>\<open>get_max_fds\<close> as compiled on Linux with glibc (\<^verbatim>\<open>HAVE_GETRLIMIT\<close>,
  \<^verbatim>\<open>RLIMIT_NOFILE\<close>, \<^verbatim>\<open>_SC_OPEN_MAX\<close>, \<^verbatim>\<open>_POSIX_OPEN_MAX\<close> and \<^verbatim>\<open>INT32_MAX\<close> defined,
  \<^verbatim>\<open>RLIMIT_OFILE\<close> another name of \<^verbatim>\<open>RLIMIT_NOFILE\<close>, \<^verbatim>\<open>OPEN_MAX\<close> not defined). It
  reads the environment and changes nothing.
\<close>

definition POSIX_OPEN_MAX :: int where "POSIX_OPEN_MAX = 20"

definition INT32_MAX :: int where "INT32_MAX = 2147483647"

definition get_max_fds :: "world \<Rightarrow> int" where
  "get_max_fds w =
     (let m0 = (case proc_self_fd w of None \<Rightarrow> -1 | Some names \<Rightarrow> scan_proc_fd names (-1))
      in if m0 \<noteq> -1 then m0 + 1
         else
           (let m1 = (case rlimit_nofile w of None \<Rightarrow> -1 | Some l \<Rightarrow> l);
                m2 = (if m1 = -1 then (case rlimit_nofile w of None \<Rightarrow> m1 | Some l \<Rightarrow> l)
                      else m1);
                m3 = (if m2 = -1 then (if sc_open_max w \<ge> 0 then sc_open_max w else m2)
                      else m2);
                m4 = (if m3 = -1 then POSIX_OPEN_MAX else m3);
                m5 = (if m4 = -1 then 256 else m4)
            in if m5 = INT32_MAX then 256 else m5))"

text \<open>
  \<^verbatim>\<open>close (fd)\<close>: the descriptor leaves the table; closing a descriptor that is not
  open sets \<open>errno\<close> to \<open>EBADF\<close>. No caller in this file reads the return value.
\<close>

definition sys_close :: "int \<Rightarrow> world \<Rightarrow> world" where
  "sys_close fd w =
     w\<lparr>errno := (if fd \<in> open_fds w then errno w else EBADF),
       trace := trace w @ [Close fd],
       open_fds := open_fds w - {fd}\<rparr>"

text \<open>
  The inner loop of \<^verbatim>\<open>close_all_fds\<close>,
  \<^verbatim>\<open>for (i=except_start; except[i] != -1; i++)\<close>, on the array \<open>except\<close>. The result
  is the value of \<open>i\<close> after the loop and the new \<open>except_start\<close>; it is \<open>None\<close> when
  the loop reads past the end of the array (the array has no \<open>-1\<close>).
\<close>

function except_scan :: "int list \<Rightarrow> int \<Rightarrow> nat \<Rightarrow> nat \<Rightarrow> (nat \<times> nat) option" where
  "except_scan except fd except_start i =
     (if length except \<le> i then None
      else if except ! i \<noteq> -1 then
        (if except ! i = fd then Some (i, i + 1)
         else except_scan except fd except_start (i + 1))
      else Some (i, except_start))"
  by pat_completeness auto
termination
  by (relation "measure (\<lambda>(except, fd, except_start, i). length except - i)") auto

declare except_scan.simps [simp del]

text \<open>The outer loop \<^verbatim>\<open>for (fd=first; fd < max_fd; fd++)\<close> with an exception list.\<close>

function close_except_loop :: "int list \<Rightarrow> int \<Rightarrow> int \<Rightarrow> nat \<Rightarrow> world \<Rightarrow> world option" where
  "close_except_loop except max_fd fd except_start w =
     (if fd < max_fd then
        (case except_scan except fd except_start except_start of
           None \<Rightarrow> None
         | Some (i, except_start') \<Rightarrow>
             close_except_loop except max_fd (fd + 1) except_start'
               (if except ! i = -1 then sys_close fd w else w))
      else Some w)"
  by pat_completeness auto
termination
  by (relation "measure (\<lambda>(except, max_fd, fd, except_start, w). nat (max_fd - fd))") auto

declare close_except_loop.simps [simp del]

text \<open>The loop without an exception list.\<close>

function close_loop :: "int \<Rightarrow> int \<Rightarrow> world \<Rightarrow> world" where
  "close_loop max_fd fd w =
     (if fd < max_fd then close_loop max_fd (fd + 1) (sys_close fd w) else w)"
  by pat_completeness auto
termination
  by (relation "measure (\<lambda>(max_fd, fd, w). nat (max_fd - fd))") auto

declare close_loop.simps [simp del]

text \<open>
  \<^verbatim>\<open>close_all_fds (first, except)\<close>; \<open>None\<close> for \<open>except\<close> is the \<open>NULL\<close> pointer. The
  last statement sets \<open>errno\<close> to 0.
\<close>

definition close_all_fds :: "int \<Rightarrow> int list option \<Rightarrow> world \<Rightarrow> world option" where
  "close_all_fds first except w =
     (let max_fd = get_max_fds w in
      map_option (\<lambda>w'. w'\<lparr>errno := 0\<rparr>)
        (case except of
           Some xs \<Rightarrow> close_except_loop xs max_fd first 0 w
         | None \<Rightarrow> Some (close_loop max_fd first w)))"

text \<open>The entries of an exception list: what stands before the first \<open>-1\<close>.\<close>

definition except_entries :: "int list \<Rightarrow> int list" where
  "except_entries except = takeWhile (\<lambda>x. x \<noteq> -1) except"

section \<open>Waiting for several children\<close>

text \<open>
  \<^verbatim>\<open>xtrymalloc\<close>, \<^verbatim>\<open>xtrycalloc\<close>: the argument is the number of elements asked for;
  the result says whether memory was returned.
\<close>

definition xtrymalloc :: "nat \<Rightarrow> world \<Rightarrow> bool \<times> world" where
  "xtrymalloc n w =
     (case next_answer (called (Alloc n) w) of
        (Err e, w') \<Rightarrow> (False, w'\<lparr>errno := e\<rparr>)
      | (_, w') \<Rightarrow> (True, w'))"

text \<open>\<^verbatim>\<open>store_result\<close> puts a new record in front of \<open>terminated_children\<close>.\<close>

definition store_result :: "int \<Rightarrow> int \<Rightarrow> world \<Rightarrow> gpg_err_code \<times> world" where
  "store_result p exitcode w =
     (case xtrymalloc 1 w of
        (False, w') \<Rightarrow> (gpg_err_code_from_syserror w', w')
      | (True, w') \<Rightarrow>
          (GPG_ERR_NO_ERROR,
           w'\<lparr>terminated_children := (p, exitcode) # terminated_children w'\<rparr>))"

text \<open>
  The list walk of \<^verbatim>\<open>get_result\<close>: the first record of the pid is unlinked; the
  result is its exit code and the remaining list.
\<close>

fun unlink_child :: "int \<Rightarrow> (int \<times> int) list \<Rightarrow> (int \<times> (int \<times> int) list) option" where
  "unlink_child p [] = None"
| "unlink_child p (c # cs) =
     (if fst c = p then Some (snd c, cs)
      else (case unlink_child p cs of
              None \<Rightarrow> None
            | Some (e, cs') \<Rightarrow> Some (e, c # cs')))"

text \<open>
  \<^verbatim>\<open>get_result (pid, &exitcode)\<close>: the result is the return value and the content of
  \<open>exitcode\<close> after the call.
\<close>

definition get_result :: "int \<Rightarrow> int \<Rightarrow> world \<Rightarrow> (int \<times> int) \<times> world" where
  "get_result p exitcode w =
     (case unlink_child p (terminated_children w) of
        None \<Rightarrow> ((0, exitcode), w)
      | Some (e, cs) \<Rightarrow> ((1, e), xfree ''terminated_child'' (w\<lparr>terminated_children := cs\<rparr>)))"

text \<open>
  The first loop of \<^verbatim>\<open>gnupg_wait_processes\<close>, over the pids in order: the result
  is \<open>left\<close> and the exit code slots of these pids.
\<close>

fun wait_processes_drain :: "int list \<Rightarrow> nat \<Rightarrow> world \<Rightarrow> (nat \<times> int list) \<times> world" where
  "wait_processes_drain [] left w = ((left, []), w)"
| "wait_processes_drain (p # ps) left w =
     (if p = -1 then
        (case wait_processes_drain ps (left - 1) w of
           ((l, r), w') \<Rightarrow> ((l, -1 # r), w'))
      else
        (case get_result p (-1) w of
           ((found, status), w1) \<Rightarrow>
             (case wait_processes_drain ps (if found \<noteq> 0 then left - 1 else left) w1 of
                ((l, r), w') \<Rightarrow> ((l, status # r), w'))))"

text \<open>
  \<^verbatim>\<open>for (i = 0; i < count; i++) if (pid == pids[i]) break;\<close>: the first index of
  the pid, or \<open>count\<close>.
\<close>

fun find_pid :: "int \<Rightarrow> int list \<Rightarrow> nat" where
  "find_pid p [] = 0"
| "find_pid p (x # xs) = (if p = x then 0 else Suc (find_pid p xs))"

lemma sys_waitpid_length:
  "sys_waitpid p options w = ((i, st), w') \<Longrightarrow> i \<noteq> -1 \<Longrightarrow>
     length (answers w') < length (answers w)"
  by (auto simp: sys_waitpid_def next_answer_def called_def
      split: list.splits answer.splits)

lemma waitpid_retry_length:
  "waitpid_retry p options w = ((i, st), w') \<Longrightarrow> i \<noteq> -1 \<Longrightarrow>
     length (answers w') < length (answers w)"
proof (induction p options w rule: waitpid_retry.induct)
  case (1 p options w)
  obtain j s w1 where s: "sys_waitpid p options w = ((j, s), w1)"
    by (metis prod.exhaust)
  show ?case
  proof (cases "j = -1 \<and> errno w1 = EINTR")
    case True
    then have e: "waitpid_retry p options w = waitpid_retry p options w1"
      using s by (subst waitpid_retry.simps) simp
    have "answers w \<noteq> []"
      using sys_waitpid_exhausted [OF s] True by (auto simp: EINTR_def ENOSYS_def)
    then have "length (answers w1) < length (answers w)"
      using sys_waitpid_answers [OF s] by simp
    moreover have "length (answers w') < length (answers w1)"
      using "1.IH" [OF s [symmetric] refl] True "1.prems" e by simp
    ultimately show ?thesis by simp
  next
    case False
    then have "waitpid_retry p options w = ((j, s), w1)"
      using s by (subst waitpid_retry.simps) auto
    then show ?thesis
      using "1.prems" sys_waitpid_length [OF s] by simp
  qed
qed

lemma waitpid_call_length:
  "waitpid_call p options w = ((i, st), w') \<Longrightarrow> i \<noteq> -1 \<Longrightarrow>
     length (answers w') < length (answers w)"
  by (auto simp: waitpid_call_def dest: sys_waitpid_length waitpid_retry_length
      split: if_splits)

lemma store_result_length:
  "store_result p e w = (ec, w') \<Longrightarrow> length (answers w') \<le> length (answers w)"
  by (auto simp: store_result_def xtrymalloc_def next_answer_def called_def
      split: list.splits answer.splits prod.splits bool.splits)

text \<open>
  The second loop, \<^verbatim>\<open>while (left > 0)\<close>. Every turn takes an answer, and an exhausted
  list makes \<^verbatim>\<open>waitpid\<close> fail, so the loop ends.
\<close>

function wait_processes_loop ::
  "int list \<Rightarrow> int \<Rightarrow> nat \<Rightarrow> int list \<Rightarrow> gpg_err_code \<Rightarrow> world \<Rightarrow>
     (gpg_err_code \<times> nat \<times> int list) \<times> world" where
  "wait_processes_loop pids hang left r ec w =
     (if left > 0 then
        (case waitpid_call (-1) (if hang \<noteq> 0 then 0 else WNOHANG) w of
           ((p, status), w1) \<Rightarrow>
             if p = -1 then
               ((gpg_err_code_from_errno (errno w1), left, r),
                log_error ''waiting for processes to terminate failed: %s'' [] [] w1)
             else if p = 0 then ((GPG_ERR_TIMEOUT, left, r), w1)
             else if find_pid p pids = length pids then
               (case store_result p status w1 of
                  (ec', w2) \<Rightarrow>
                    if ec' \<noteq> GPG_ERR_NO_ERROR then ((ec', left, r), w2)
                    else wait_processes_loop pids hang left r ec' w2)
             else if r ! find_pid p pids \<noteq> -1 then
               ((GPG_ERR_GENERAL, left, r), log_error ''PID %d was reused'' [] [p] w1)
             else
               wait_processes_loop pids hang (left - 1) (r[find_pid p pids := status]) ec w1)
      else ((ec, left, r), w))"
  by pat_completeness auto
termination
proof (relation "measure (\<lambda>(pids, hang, left, r, ec, w). length (answers w))", goal_cases)
  case 1
  show ?case by simp
next
  case (2 pids hang left r ec w x y xa ya xb yb)
  from 2 have e: "waitpid_call (- 1) (if hang \<noteq> 0 then 0 else WNOHANG) w = ((xa, ya), y)"
    and n: "xa \<noteq> - 1" and s: "store_result xa ya y = (xb, yb)"
    by simp_all
  have "length (answers y) < length (answers w)"
    using e n by (rule waitpid_call_length)
  moreover have "length (answers yb) \<le> length (answers y)"
    using s by (rule store_result_length)
  ultimately show ?case by simp
next
  case (3 pids hang left r ec w x y xa ya)
  from 3 have e: "waitpid_call (- 1) (if hang \<noteq> 0 then 0 else WNOHANG) w = ((xa, ya), y)"
    and n: "xa \<noteq> - 1"
    by simp_all
  have "length (answers y) < length (answers w)"
    using e n by (rule waitpid_call_length)
  then show ?case by simp
qed

declare wait_processes_loop.simps [simp del]

text \<open>
  The third loop classifies every slot that holds a status; \<open>dummy\<close> says that the
  caller passed no array for the exit codes. The program name of a slot is used in the
  log only; where \<open>pgmnames\<close> has fewer names than there are pids the model logs an
  empty name.
\<close>

definition classify_slot ::
  "string \<Rightarrow> bool \<Rightarrow> int \<Rightarrow> gpg_err_code \<Rightarrow> world \<Rightarrow> (gpg_err_code \<times> int) \<times> world" where
  "classify_slot name dummy x ec w =
     (if x = -1 then ((ec, x), w)
      else if WIFEXITED x \<and> WEXITSTATUS x = 127 then
        ((GPG_ERR_CONFIGURATION, x),
         log_error ''error running %s: probably not installed'' [name] [] w)
      else if WIFEXITED x \<and> WEXITSTATUS x \<noteq> 0 then
        (if dummy then
           ((GPG_ERR_GENERAL, x),
            log_error ''error running %s: exit status %d'' [name] [WEXITSTATUS x] w)
         else ((GPG_ERR_GENERAL, WEXITSTATUS x), w))
      else if \<not> WIFEXITED x then
        ((GPG_ERR_GENERAL, x), log_error ''error running %s: terminated'' [name] [] w)
      else ((ec, x), w))"

fun wait_processes_classify ::
  "string list \<Rightarrow> bool \<Rightarrow> int list \<Rightarrow> gpg_err_code \<Rightarrow> world \<Rightarrow>
     (gpg_err_code \<times> int list) \<times> world" where
  "wait_processes_classify names dummy [] ec w = ((ec, []), w)"
| "wait_processes_classify names dummy (x # xs) ec w =
     (case classify_slot (case names of [] \<Rightarrow> [] | n # ns \<Rightarrow> n) dummy x ec w of
        ((ec1, x'), w1) \<Rightarrow>
          (case wait_processes_classify (tl names) dummy xs ec1 w1 of
             ((ec2, r), w2) \<Rightarrow> ((ec2, x' # r), w2)))"

text \<open>
  The slots for which the third loop assigns \<open>ec\<close>: every slot that holds a status
  other than a normal exit with code 0 (lines 811 to 833), in the order of the loop.
\<close>

definition failed_slots :: "int list \<Rightarrow> int list" where
  "failed_slots r = filter (\<lambda>x. x \<noteq> -1 \<and> \<not> (WIFEXITED x \<and> WEXITSTATUS x = 0)) r"

text \<open>
  \<^verbatim>\<open>gnupg_wait_processes\<close>: \<open>count\<close> is the length of \<open>pids\<close>; \<open>r_exitcodes\<close> says
  whether the caller passed an array for the exit codes, and the result holds its
  content after the call.
\<close>

definition gnupg_wait_processes ::
  "string list \<Rightarrow> int list \<Rightarrow> int \<Rightarrow> bool \<Rightarrow> world \<Rightarrow>
     (gpg_err_code \<times> int list option) \<times> world" where
  "gnupg_wait_processes pgmnames pids hang r_exitcodes w =
     (case (if r_exitcodes then (True, w) else xtrymalloc (length pids) w) of
        (False, w0) \<Rightarrow> ((gpg_err_code_from_syserror w0, None), w0)
      | (True, w0) \<Rightarrow>
          (case wait_processes_drain pids (length pids) w0 of
             ((left, r0), w1) \<Rightarrow>
               (case wait_processes_loop pids hang left r0 GPG_ERR_NO_ERROR w1 of
                  ((ec, left', r1), w2) \<Rightarrow>
                    (case wait_processes_classify pgmnames (\<not> r_exitcodes) r1 ec w2 of
                       ((ec', r2), w3) \<Rightarrow>
                         ((ec', if r_exitcodes then Some r2 else None),
                          if r_exitcodes then w3 else xfree ''dummy'' w3)))))"

section \<open>Listing the open descriptors\<close>

text \<open>
  \<^verbatim>\<open>fstat (fd, &statbuf)\<close> fails with \<open>EBADF\<close> for a descriptor that is not open and
  succeeds in the model for one that is; \<^verbatim>\<open>get_all_open_fds\<close> takes every other
  failure for an open descriptor as well.
\<close>

definition sys_fstat :: "int \<Rightarrow> world \<Rightarrow> int \<times> world" where
  "sys_fstat fd w =
     (if fd \<in> open_fds w then (0, called (Fstat fd) w)
      else (-1, (called (Fstat fd) w)\<lparr>errno := EBADF\<rparr>))"

text \<open>
  \<^verbatim>\<open>calloc\<close> and \<^verbatim>\<open>realloc\<close> of the C library, with the number of array elements
  asked for.
\<close>

definition sys_calloc :: "nat \<Rightarrow> world \<Rightarrow> bool \<times> world" where
  "sys_calloc n w =
     (case next_answer (called (Alloc n) w) of
        (Err e, w') \<Rightarrow> (False, w'\<lparr>errno := e\<rparr>)
      | (_, w') \<Rightarrow> (True, w'))"

definition sys_realloc :: "nat \<Rightarrow> world \<Rightarrow> bool \<times> world" where
  "sys_realloc n w =
     (case next_answer (called (Realloc n) w) of
        (Err e, w') \<Rightarrow> (False, w'\<lparr>errno := e\<rparr>)
      | (_, w') \<Rightarrow> (True, w'))"

text \<open>\<^verbatim>\<open>narray += (narray < 256)? 32:256;\<close>\<close>

definition grow_narray :: "nat \<Rightarrow> nat" where
  "grow_narray narray = narray + (if narray < 256 then 32 else 256)"

text \<open>
  The loop of \<^verbatim>\<open>get_all_open_fds\<close> over the descriptors. \<open>array\<close> is the buffer
  with its \<open>narray\<close> elements (the elements \<^verbatim>\<open>realloc\<close> adds are 0 in the model; the
  code writes them before it reads them). The result is \<open>None\<close> when \<^verbatim>\<open>realloc\<close>
  failed, and \<open>idx\<close>, \<open>narray\<close> and \<open>array\<close> after the loop otherwise.
\<close>

function open_fds_loop ::
  "int \<Rightarrow> int \<Rightarrow> nat \<Rightarrow> nat \<Rightarrow> int list \<Rightarrow> world \<Rightarrow> (nat \<times> nat \<times> int list) option \<times> world" where
  "open_fds_loop max_fd fd idx narray array w =
     (if fd < max_fd then
        (case sys_fstat fd w of
           (r, w1) \<Rightarrow>
             if \<not> (r = -1 \<and> errno w1 = EBADF) then
               (if narray \<le> idx + 1 then
                  (case sys_realloc (grow_narray narray) w1 of
                     (False, w2) \<Rightarrow> (None, called (Free ''array'') w2)
                   | (True, w2) \<Rightarrow>
                       open_fds_loop max_fd (fd + 1) (idx + 1) (grow_narray narray)
                         ((array @ replicate (grow_narray narray - narray) 0)[idx := fd]) w2)
                else open_fds_loop max_fd (fd + 1) (idx + 1) narray (array[idx := fd]) w1)
             else open_fds_loop max_fd (fd + 1) idx narray array w1)
      else (Some (idx, narray, array), w))"
  by pat_completeness auto
termination
  by (relation "measure (\<lambda>(max_fd, fd, idx, narray, array, w). nat (max_fd - fd))") auto

declare open_fds_loop.simps [simp del]

text \<open>\<^verbatim>\<open>get_all_open_fds\<close>, compiled with \<^verbatim>\<open>HAVE_STAT\<close>; \<open>None\<close> is the result \<open>NULL\<close>.\<close>

definition get_all_open_fds :: "world \<Rightarrow> int list option \<times> world" where
  "get_all_open_fds w =
     (let max_fd = get_max_fds w; narray = 32 in
      case sys_calloc narray w of
        (False, w1) \<Rightarrow> (None, w1)
      | (True, w1) \<Rightarrow>
          (case open_fds_loop max_fd 0 0 narray (replicate narray 0) w1 of
             (None, w2) \<Rightarrow> (None, w2)
           | (Some (idx, narray', array), w2) \<Rightarrow> (Some (array[idx := -1]), w2)))"

text \<open>The capacity of the buffer after \<open>k\<close> enlargements.\<close>

definition capacity_after :: "nat \<Rightarrow> nat" where
  "capacity_after k = (grow_narray ^^ k) 32"

section \<open>Spawning a process\<close>

text \<open>
  A function that forks goes on in two processes. The model follows the calling
  process: the child's branch, which ends in \<^verbatim>\<open>my_exec\<close> or \<^verbatim>\<open>_exit\<close> and never
  returns to the caller, is the outcome \<open>InChild\<close>. \<open>NullDeref\<close> is a store through a
  \<open>NULL\<close> pointer.
\<close>

datatype 'a outcome = Returns 'a | InChild | NullDeref

definition xtrycalloc :: "nat \<Rightarrow> world \<Rightarrow> bool \<times> world" where
  "xtrycalloc n w = xtrymalloc n w"

text \<open>\<^verbatim>\<open>access (pgmname, X_OK)\<close>: 0, or \<open>-1\<close> with \<open>errno\<close> set.\<close>

definition sys_access :: "string \<Rightarrow> world \<Rightarrow> int \<times> world" where
  "sys_access name w =
     (case next_answer (called (Access name) w) of
        (Err e, w') \<Rightarrow> (-1, w'\<lparr>errno := e\<rparr>)
      | (_, w') \<Rightarrow> (0, w'))"

text \<open>\<^verbatim>\<open>fork ()\<close>: the child's pid in the parent, 0 in the child, \<open>-1\<close> with \<open>errno\<close> set.\<close>

definition sys_fork :: "world \<Rightarrow> int \<times> world" where
  "sys_fork w =
     (case next_answer (called Fork w) of
        (Ok v, w') \<Rightarrow> (v, w')
      | (Err e, w') \<Rightarrow> (-1, w'\<lparr>errno := e\<rparr>)
      | (_, w') \<Rightarrow> (-1, w'\<lparr>errno := ENOSYS\<rparr>))"

text \<open>
  \<^verbatim>\<open>pipe (filedes)\<close> and \<^verbatim>\<open>socketpair (AF_LOCAL, SOCK_STREAM, 0, filedes)\<close>: the
  two descriptors, which enter the descriptor table, or \<open>None\<close> for the return value
  \<open>-1\<close>, with \<open>errno\<close> set.
\<close>

definition sys_pipe :: "call \<Rightarrow> world \<Rightarrow> (int \<times> int) option \<times> world" where
  "sys_pipe c w =
     (case next_answer (called c w) of
        (Pair a b, w') \<Rightarrow> (Some (a, b), w'\<lparr>open_fds := open_fds w' \<union> {a, b}\<rparr>)
      | (Err e, w') \<Rightarrow> (None, w'\<lparr>errno := e\<rparr>)
      | (_, w') \<Rightarrow> (None, w'\<lparr>errno := ENOSYS\<rparr>))"

text \<open>\<^verbatim>\<open>dup (fd)\<close>: the new descriptor, or \<open>-1\<close> with \<open>errno\<close> set.\<close>

definition sys_dup :: "int \<Rightarrow> world \<Rightarrow> int \<times> world" where
  "sys_dup fd w =
     (case next_answer (called (Dup fd) w) of
        (Ok v, w') \<Rightarrow> (v, w'\<lparr>open_fds := open_fds w' \<union> {v}\<rparr>)
      | (Err e, w') \<Rightarrow> (-1, w'\<lparr>errno := e\<rparr>)
      | (_, w') \<Rightarrow> (-1, w'\<lparr>errno := ENOSYS\<rparr>))"

text \<open>
  \<^verbatim>\<open>do_create_pipe\<close> and \<^verbatim>\<open>do_create_socketpair\<close>: the error code and the content of
  \<open>filedes\<close> after the call.
\<close>

definition do_create_pipe :: "world \<Rightarrow> (gpg_err_code \<times> int \<times> int) \<times> world" where
  "do_create_pipe w =
     (case sys_pipe Pipe w of
        (None, w') \<Rightarrow> ((gpg_err_code_from_syserror w', -1, -1), w')
      | (Some fds, w') \<Rightarrow> ((GPG_ERR_NO_ERROR, fds), w'))"

definition do_create_socketpair :: "world \<Rightarrow> (gpg_err_code \<times> int \<times> int) \<times> world" where
  "do_create_socketpair w =
     (case sys_pipe Socketpair (pre_syscall w) of
        (None, w') \<Rightarrow> ((gpg_err_code_from_syserror w', -1, -1), post_syscall w')
      | (Some fds, w') \<Rightarrow> ((GPG_ERR_NO_ERROR, fds), post_syscall w'))"

text \<open>
  \<^verbatim>\<open>spawn_detached\<close>. The result holds the structure \<open>process\<close> points to after the
  call; where the function has freed it, the trace says so. The callback and its
  argument are used by the child only.
\<close>

definition spawn_detached ::
  "gnupg_process \<Rightarrow> string \<Rightarrow> world \<Rightarrow> (gpg_err_code \<times> gnupg_process) outcome \<times> world" where
  "spawn_detached process pgm w =
     (if uid (called Getuid w) \<noteq> euid (called Geteuid (called Getuid w)) then
        (Returns (GPG_ERR_BUG, process),
         xfree ''argv'' (xfree ''process'' (called Geteuid (called Getuid w))))
      else
        (case sys_access pgm (called Geteuid (called Getuid w)) of
           (a, w1) \<Rightarrow>
             if a \<noteq> 0 then
               (Returns (gpg_err_code_from_syserror w1, process),
                xfree ''argv'' (xfree ''process'' w1))
             else
               (case sys_fork (pre_syscall w1) of
                  (p, w2) \<Rightarrow>
                    (let w3 = post_syscall w2 in
                     if p = -1 then
                       (Returns (gpg_err_code_from_syserror w3, process),
                        xfree ''argv'' (xfree ''process''
                          (log_error ''error forking process: %s'' [] [] w3)))
                     else if p = 0 then (InChild, w3)
                     else
                       (case sys_waitpid p 0 (pre_syscall w3) of
                          ((r, st), w4) \<Rightarrow>
                            if r = -1 then
                              (Returns (gpg_err_code_from_syserror (post_syscall w4), process),
                               log_error ''waitpid failed in gpgrt_spawn_process_detached: %s''
                                 [] [] (post_syscall w4))
                            else
                              (Returns (GPG_ERR_NO_ERROR,
                                 process\<lparr>pid := -1, fd_in := -1, fd_out := -1, fd_err := -1,
                                         wstatus := -1, terminated := True\<rparr>),
                               post_syscall w4))))))"

text \<open>
  The mask \<^verbatim>\<open>GNUPG_PROCESS_STDFDS_SETTING\<close> of \<^verbatim>\<open>exechelp.h\<close>: the flags that say
  how the standard descriptors are connected.
\<close>

definition GNUPG_PROCESS_STDFDS_SETTING :: "spawn_flag set" where
  "GNUPG_PROCESS_STDFDS_SETTING =
     {GNUPG_PROCESS_STDIN_PIPE, GNUPG_PROCESS_STDOUT_PIPE, GNUPG_PROCESS_STDERR_PIPE,
      GNUPG_PROCESS_STDINOUT_SOCKETPAIR, GNUPG_PROCESS_STDIN_NULL,
      GNUPG_PROCESS_STDOUT_NULL, GNUPG_PROCESS_STDERR_NULL}"

text \<open>The groups of \<^verbatim>\<open>close\<close> calls that undo the descriptors made so far.\<close>

definition close_fd_in :: "int \<times> int \<Rightarrow> world \<Rightarrow> world" where
  "close_fd_in fd w =
     (let w1 = (if fst fd \<ge> 0 \<and> fst fd \<noteq> 0 then sys_close (fst fd) w else w)
      in if snd fd \<ge> 0 then sys_close (snd fd) w1 else w1)"

definition close_fd_out :: "int \<Rightarrow> int \<times> int \<Rightarrow> world \<Rightarrow> world" where
  "close_fd_out std fd w =
     (let w1 = (if fst fd \<ge> 0 then sys_close (fst fd) w else w)
      in if snd fd \<ge> 0 \<and> snd fd \<noteq> std then sys_close (snd fd) w1 else w1)"

text \<open>
  \<^verbatim>\<open>gnupg_process_spawn\<close>, first the part that wires the standard input and output:
  an error code with the world after the undoing, or the arrays \<open>fd_in\<close> and \<open>fd_out\<close>.
\<close>

definition spawn_stdinout ::
  "spawn_flag set \<Rightarrow> world \<Rightarrow> (gpg_err_code + (int \<times> int) \<times> (int \<times> int)) \<times> world" where
  "spawn_stdinout fl w =
     (if GNUPG_PROCESS_STDINOUT_SOCKETPAIR \<in> fl then
        (case do_create_socketpair w of
           ((ec, fd_i), w1) \<Rightarrow>
             if ec \<noteq> GPG_ERR_NO_ERROR then (Inl ec, xfree ''argv'' (xfree ''process'' w1))
             else
               (case sys_dup (fst fd_i) w1 of
                  (o0, w2) \<Rightarrow>
                    (case sys_dup (snd fd_i) w2 of
                       (o1, w3) \<Rightarrow> (Inr (fd_i, (o0, o1)), w3))))
      else
        (case (if GNUPG_PROCESS_STDIN_PIPE \<in> fl then do_create_pipe w
               else if GNUPG_PROCESS_STDIN_NULL \<in> fl then ((GPG_ERR_NO_ERROR, -1, -1), w)
               else ((GPG_ERR_NO_ERROR, 0, -1), w)) of
           ((ec, fd_i), w1) \<Rightarrow>
             if ec \<noteq> GPG_ERR_NO_ERROR then (Inl ec, xfree ''argv'' (xfree ''process'' w1))
             else
               (case (if GNUPG_PROCESS_STDOUT_PIPE \<in> fl then do_create_pipe w1
                      else if GNUPG_PROCESS_STDOUT_NULL \<in> fl then ((GPG_ERR_NO_ERROR, -1, -1), w1)
                      else ((GPG_ERR_NO_ERROR, -1, 1), w1)) of
                  ((ec', fd_o), w2) \<Rightarrow>
                    if ec' \<noteq> GPG_ERR_NO_ERROR then
                      (Inl ec', xfree ''argv'' (xfree ''process'' (close_fd_in fd_i w2)))
                    else (Inr (fd_i, fd_o), w2))))"

text \<open>
  The part from the wiring of the standard error to the end. \<open>r_process\<close> says
  whether the caller passed a place for the handle; the result holds the handle stored
  there (\<open>None\<close> is \<open>NULL\<close>).
\<close>

definition spawn_attached ::
  "gnupg_process \<Rightarrow> spawn_flag set \<Rightarrow> bool \<Rightarrow> world \<Rightarrow>
     (gpg_err_code \<times> gnupg_process option) outcome \<times> world" where
  "spawn_attached process fl r_process w =
     (case spawn_stdinout fl w of
        (Inl ec, w1) \<Rightarrow> (Returns (ec, None), w1)
      | (Inr (fd_i, fd_o), w1) \<Rightarrow>
          (case (if GNUPG_PROCESS_STDERR_PIPE \<in> fl then do_create_pipe w1
                 else if GNUPG_PROCESS_STDERR_NULL \<in> fl then ((GPG_ERR_NO_ERROR, -1, -1), w1)
                 else ((GPG_ERR_NO_ERROR, -1, 2), w1)) of
             ((ec, fd_e), w2) \<Rightarrow>
               if ec \<noteq> GPG_ERR_NO_ERROR then
                 (Returns (ec, None),
                  xfree ''argv'' (xfree ''process'' (close_fd_out 1 fd_o (close_fd_in fd_i w2))))
               else
                 (case sys_fork (pre_syscall w2) of
                    (p, w3) \<Rightarrow>
                      (let w4 = post_syscall w3 in
                       if p = -1 then
                         (Returns (gpg_err_code_from_syserror w4, None),
                          xfree ''argv'' (xfree ''process''
                            (close_fd_out 2 fd_e (close_fd_out 1 fd_o (close_fd_in fd_i
                              (log_error ''error forking process: %s'' [] [] w4))))))
                       else if p = 0 then
                         (InChild,
                          (let wa = (if snd fd_i \<ge> 0 then sys_close (snd fd_i) w4 else w4);
                               wb = (if fst fd_o \<ge> 0 then sys_close (fst fd_o) wa else wa)
                           in if fst fd_e \<ge> 0 then sys_close (fst fd_e) wb else wb))
                       else
                         (let w5 = xfree ''argv'' w4;
                              w6 = (if fst fd_i \<ge> 0 \<and> fst fd_i \<noteq> 0
                                    then sys_close (fst fd_i) w5 else w5);
                              w7 = (if snd fd_o \<ge> 0 \<and> snd fd_o \<noteq> 1
                                    then sys_close (snd fd_o) w6 else w6);
                              w8 = (if snd fd_e \<ge> 0 \<and> snd fd_e \<noteq> 2
                                    then sys_close (snd fd_e) w7 else w7);
                              process' = process\<lparr>pid := p, fd_in := snd fd_i, fd_out := fst fd_o,
                                fd_err := fst fd_e, wstatus := -1, terminated := False\<rparr>
                          in if \<not> r_process then
                               (case gnupg_process_wait process' 1 w8 of
                                  ((ec', process''), w9) \<Rightarrow>
                                    (Returns (ec', None),
                                     gnupg_process_release (Some process'') w9))
                             else (Returns (GPG_ERR_NO_ERROR, Some process'), w8))))))"

text \<open>
  \<^verbatim>\<open>gnupg_process_spawn\<close>. \<open>argv1\<close> is the argument vector (\<open>None\<close> for \<open>NULL\<close>); the
  vector built from it, and the callback with its argument, are used by the child
  only. \<^verbatim>\<open>xtrycalloc\<close> gives a handle whose fields are all zero.
\<close>

definition gnupg_process_spawn ::
  "string \<Rightarrow> string list option \<Rightarrow> spawn_flag set \<Rightarrow> bool \<Rightarrow> world \<Rightarrow>
     (gpg_err_code \<times> gnupg_process option) outcome \<times> world" where
  "gnupg_process_spawn pgm argv1 fl r_process w =
     (case xtrycalloc (length (case argv1 of None \<Rightarrow> [] | Some as \<Rightarrow> as) + 2) w of
        (False, w1) \<Rightarrow> (Returns (gpg_err_code_from_syserror w1, None), w1)
      | (True, w1) \<Rightarrow>
          (case xtrycalloc 1 w1 of
             (False, w2) \<Rightarrow> (Returns (gpg_err_code_from_syserror w2, None), xfree ''argv'' w2)
           | (True, w2) \<Rightarrow>
               (let process = \<lparr>pgmname = pgm, terminated = False, flags = fl, pid = 0,
                               fd_in = 0, fd_out = 0, fd_err = 0, wstatus = 0\<rparr>
                in if GNUPG_PROCESS_DETACHED \<in> fl then
                     (if fl \<inter> GNUPG_PROCESS_STDFDS_SETTING \<noteq> {} then
                        (Returns (GPG_ERR_INV_FLAG, None),
                         xfree ''argv'' (xfree ''process'' w2))
                      else if \<not> r_process then (NullDeref, w2)
                      else
                        (case spawn_detached process pgm w2 of
                           (Returns (ec, process'), w3) \<Rightarrow> (Returns (ec, Some process'), w3)
                         | (InChild, w3) \<Rightarrow> (InChild, w3)
                         | (NullDeref, w3) \<Rightarrow> (NullDeref, w3)))
                   else spawn_attached process fl r_process w2)))"

section \<open>Examples used by the witnesses\<close>

definition example_world :: world where
  "example_world =
     \<lparr>errno = 0, answers = [], trace = [], terminated_children = [],
      open_fds = {0, 1, 2, 3, 4, 5, 6, 7},
      proc_self_fd = Some [''.'', ''..'', ''3'', ''0'', ''7'', ''1'', ''5'', ''2'', ''6'', ''4''],
      rlimit_nofile = Some 4096, sc_open_max = 1024, use_npth = False,
      uid = 1000, euid = 1000\<rparr>"

definition example_process :: gnupg_process where
  "example_process =
     \<lparr>pgmname = ''/usr/bin/gpg'', terminated = False,
      flags = {GNUPG_PROCESS_STDIN_PIPE, GNUPG_PROCESS_STDOUT_PIPE, GNUPG_PROCESS_STDERR_PIPE},
      pid = 4242, fd_in = 5, fd_out = 6, fd_err = 7, wstatus = -1\<rparr>"

definition example_batch_world :: world where
  "example_batch_world =
     example_world\<lparr>answers := [Waited 5 0, Ok 0, Waited 7 0],
                   terminated_children := [(9, 256)]\<rparr>"

definition example_fds_world :: world where
  "example_fds_world = example_world\<lparr>open_fds := {0..<33}\<rparr>"

section \<open>Facts about waiting\<close>

lemma sys_waitpid_Ok:
  "answers w = Ok v # rest \<Longrightarrow>
   sys_waitpid p opt w = ((0, 0), w\<lparr>answers := rest, trace := trace w @ [Waitpid p opt]\<rparr>)"
  by (simp add: sys_waitpid_def next_answer_def called_def)

lemma sys_waitpid_Waited:
  "answers w = Waited q st # rest \<Longrightarrow>
   sys_waitpid p opt w = ((q, st), w\<lparr>answers := rest, trace := trace w @ [Waitpid p opt]\<rparr>)"
  by (simp add: sys_waitpid_def next_answer_def called_def)

lemma sys_waitpid_Err:
  "answers w = Err e # rest \<Longrightarrow>
   sys_waitpid p opt w =
     ((-1, 0), w\<lparr>errno := e, answers := rest, trace := trace w @ [Waitpid p opt]\<rparr>)"
  by (simp add: sys_waitpid_def next_answer_def called_def)

lemma waitpid_retry_Ok:
  "answers w = Ok v # rest \<Longrightarrow>
   waitpid_retry p opt w = ((0, 0), w\<lparr>answers := rest, trace := trace w @ [Waitpid p opt]\<rparr>)"
  by (subst waitpid_retry.simps) (simp add: sys_waitpid_Ok)

lemma waitpid_retry_Waited:
  "answers w = Waited q st # rest \<Longrightarrow> q \<noteq> -1 \<Longrightarrow>
   waitpid_retry p opt w = ((q, st), w\<lparr>answers := rest, trace := trace w @ [Waitpid p opt]\<rparr>)"
  by (subst waitpid_retry.simps) (simp add: sys_waitpid_Waited)

lemma waitpid_retry_Err:
  "answers w = Err e # rest \<Longrightarrow>
   waitpid_retry p opt w =
     (if e = EINTR
      then waitpid_retry p opt
             (w\<lparr>errno := e, answers := rest, trace := trace w @ [Waitpid p opt]\<rparr>)
      else ((-1, 0), w\<lparr>errno := e, answers := rest, trace := trace w @ [Waitpid p opt]\<rparr>))"
  by (subst waitpid_retry.simps) (simp add: sys_waitpid_Err)

lemma waitpid_call_Ok:
  "answers w = Ok v # rest \<Longrightarrow>
   waitpid_call p opt w = ((0, 0), w\<lparr>answers := rest, trace := trace w @ [Waitpid p opt]\<rparr>)"
  by (simp add: waitpid_call_def sys_waitpid_Ok waitpid_retry_Ok)

lemma waitpid_call_Waited:
  "answers w = Waited q st # rest \<Longrightarrow> q \<noteq> -1 \<Longrightarrow>
   waitpid_call p opt w = ((q, st), w\<lparr>answers := rest, trace := trace w @ [Waitpid p opt]\<rparr>)"
  by (simp add: waitpid_call_def sys_waitpid_Waited waitpid_retry_Waited)

lemma closes_of_append [simp]: "closes_of (xs @ ys) = closes_of xs @ closes_of ys"
  by (simp add: closes_of_def)

lemma closes_sys_waitpid:
  "closes_of (trace (snd (sys_waitpid p opt w))) = closes_of (trace w)"
  by (simp add: sys_waitpid_def next_answer_def called_def closes_of_def
      split: list.splits answer.splits)

lemma closes_waitpid_retry:
  "closes_of (trace (snd (waitpid_retry p opt w))) = closes_of (trace w)"
proof (induction p opt w rule: waitpid_retry.induct)
  case (1 p options w)
  obtain i st w' where s: "sys_waitpid p options w = ((i, st), w')"
    by (metis prod.exhaust)
  have t: "closes_of (trace w') = closes_of (trace w)"
    using closes_sys_waitpid [of p options w] s by simp
  show ?case
  proof (cases "i = -1 \<and> errno w' = EINTR")
    case True
    then have "waitpid_retry p options w = waitpid_retry p options w'"
      using s by (subst waitpid_retry.simps) simp
    moreover have "closes_of (trace (snd (waitpid_retry p options w'))) = closes_of (trace w')"
      using "1.IH" [OF s [symmetric] refl] True by simp
    ultimately show ?thesis using t by simp
  next
    case False
    then have "waitpid_retry p options w = ((i, st), w')"
      using s by (subst waitpid_retry.simps) auto
    then show ?thesis using t by simp
  qed
qed

lemma closes_of_simps [simp]:
  "closes_of [] = []"
  "closes_of (Close fd # tr) = fd # closes_of tr"
  "closes_of (PreSyscall # tr) = closes_of tr"
  "closes_of (PostSyscall # tr) = closes_of tr"
  "closes_of (Kill p sig # tr) = closes_of tr"
  "closes_of (Waitpid p opt # tr) = closes_of tr"
  "closes_of (Free what # tr) = closes_of tr"
  "closes_of (LogError msg strs ints # tr) = closes_of tr"
  by (simp_all add: closes_of_def)

lemma closes_sys_kill:
  "closes_of (trace (snd (sys_kill p sig w))) = closes_of (trace w)"
  by (simp add: sys_kill_def next_answer_def called_def
      split: list.splits answer.splits)

lemma closes_process_kill:
  "closes_of (trace (snd (process_kill process sig w))) = closes_of (trace w)"
proof -
  obtain r w' where k: "sys_kill (pid process) sig (pre_syscall w) = (r, w')"
    by (metis prod.exhaust)
  have "closes_of (trace w') = closes_of (trace (pre_syscall w))"
    using closes_sys_kill [of "pid process" sig "pre_syscall w"] k by simp
  then show ?thesis
    using k by (simp add: process_kill_def post_syscall_def pre_syscall_def called_def)
qed

lemma closes_process_wait:
  "closes_of (trace (snd (gnupg_process_wait process hang w))) = closes_of (trace w)"
proof (cases "terminated process")
  case True
  then show ?thesis by (simp add: gnupg_process_wait_def)
next
  case False
  obtain p st w1 where r:
    "waitpid_retry (pid process) (if hang \<noteq> 0 then 0 else WNOHANG) (pre_syscall w) = ((p, st), w1)"
    by (metis prod.exhaust)
  have "closes_of (trace w1) = closes_of (trace (pre_syscall w))"
    using closes_waitpid_retry [of "pid process" "if hang \<noteq> 0 then 0 else WNOHANG" "pre_syscall w"] r
    by simp
  then have "closes_of (trace w1) = closes_of (trace w)"
    by (simp add: pre_syscall_def called_def)
  then show ?thesis
    using False r
    by (simp add: gnupg_process_wait_def Let_def post_syscall_def log_error_def called_def)
qed

lemma closes_release:
  "closes_of (trace (gnupg_process_release h w)) = closes_of (trace w)"
proof (cases h)
  case None
  then show ?thesis by (simp add: gnupg_process_release_def)
next
  case (Some process)
  obtain ec wa where k: "gnupg_process_terminate process w = (ec, wa)"
    by (metis prod.exhaust)
  have a: "closes_of (trace wa) = closes_of (trace w)"
    using closes_process_kill [of process SIGTERM w] k
    by (simp add: gnupg_process_terminate_def)
  have b: "closes_of (trace (snd (gnupg_process_wait process 1 wa))) = closes_of (trace wa)"
    by (rule closes_process_wait)
  show ?thesis
    using Some k a b
    by (simp add: gnupg_process_release_def xfree_def called_def Let_def)
qed

lemma get_fds_eq:
  "gnupg_process_get_fds process a b c =
     (GPG_ERR_NO_ERROR,
      (if a then Some (fd_in process) else None,
       if b then Some (fd_out process) else None,
       if c then Some (fd_err process) else None),
      process\<lparr>fd_in := if a then -1 else fd_in process,
              fd_out := if b then -1 else fd_out process,
              fd_err := if c then -1 else fd_err process\<rparr>)"
  by (cases a; cases b; cases c; simp add: gnupg_process_get_fds_def)

lemma release_not_terminated:
  "\<not> terminated process \<Longrightarrow>
     gnupg_process_release (Some process) w = w\<lparr>trace := trace w @ [Free ''process'']\<rparr>"
  by (simp add: gnupg_process_release_def xfree_def called_def)

section \<open>The claims about process handles\<close>

text \<open>
  C10. Waiting on a handle whose terminated flag is set returns success at once, for
  every value of \<open>hang\<close>: the world is returned as it was (no \<^verbatim>\<open>waitpid\<close>, no
  other call), and so is the handle, with its terminated flag and its wait status.
\<close>

theorem process_wait_terminated_idempotent:
  "terminated process \<Longrightarrow>
     gnupg_process_wait process hang w = ((GPG_ERR_NO_ERROR, process), w)"
  by (simp add: gnupg_process_wait_def)

theorem process_wait_terminated_idempotent_witness:
  "terminated (example_process\<lparr>terminated := True, wstatus := 0\<rparr>)
   \<and> gnupg_process_wait (example_process\<lparr>terminated := True, wstatus := 0\<rparr>) 1
         (example_world\<lparr>answers := [Waited 4242 0]\<rparr>)
       = ((GPG_ERR_NO_ERROR, example_process\<lparr>terminated := True, wstatus := 0\<rparr>),
          example_world\<lparr>answers := [Waited 4242 0]\<rparr>)
   \<and> gnupg_process_wait (example_process\<lparr>terminated := True, wstatus := 0\<rparr>) 0
         (example_world\<lparr>answers := [Waited 4242 0]\<rparr>)
       = ((GPG_ERR_NO_ERROR, example_process\<lparr>terminated := True, wstatus := 0\<rparr>),
          example_world\<lparr>answers := [Waited 4242 0]\<rparr>)"
proof -
  have h: "terminated (example_process\<lparr>terminated := True, wstatus := 0\<rparr>)"
    by simp
  show ?thesis
    using h process_wait_terminated_idempotent [OF h, of 1]
      process_wait_terminated_idempotent [OF h, of 0]
    by simp
qed

text \<open>
  C7. When the environment answers the non-blocking \<^verbatim>\<open>waitpid\<close> with 0 (the child
  has not changed state), \<^verbatim>\<open>gnupg_process_wait\<close> with \<open>hang = 0\<close> on a handle that is
  not terminated returns \<open>GPG_ERR_TIMEOUT\<close> and the handle as it was, and
  \<^verbatim>\<open>gnupg_wait_process\<close> with \<open>hang = 0\<close> on a valid pid returns \<open>GPG_ERR_TIMEOUT\<close>
  with the exit code place left at \<open>-1\<close>. \<open>GPG_ERR_TIMEOUT\<close> is a code of its own,
  different from \<open>GPG_ERR_GENERAL\<close>.
\<close>

theorem nonblocking_wait_still_running:
  assumes "answers w = Ok v # rest"
  shows "(\<not> terminated process \<longrightarrow>
            gnupg_process_wait process 0 w =
              ((GPG_ERR_TIMEOUT, process),
               w\<lparr>answers := rest,
                 trace := trace w @ [PreSyscall, Waitpid (pid process) WNOHANG, PostSyscall]\<rparr>))
       \<and> (p \<noteq> -1 \<longrightarrow>
            gnupg_wait_process pgm p 0 r w =
              ((GPG_ERR_TIMEOUT, if r then Some (-1) else None),
               w\<lparr>answers := rest, trace := trace w @ [Waitpid p WNOHANG]\<rparr>))
       \<and> GPG_ERR_TIMEOUT \<noteq> GPG_ERR_GENERAL"
  using assms
  by (simp add: gnupg_process_wait_def gnupg_wait_process_def waitpid_call_Ok waitpid_retry_Ok
      pre_syscall_def post_syscall_def called_def)

theorem nonblocking_wait_still_running_witness:
  "answers (example_world\<lparr>answers := [Ok 0]\<rparr>) = Ok 0 # []
   \<and> \<not> terminated example_process
   \<and> gnupg_process_wait example_process 0 (example_world\<lparr>answers := [Ok 0]\<rparr>) =
       ((GPG_ERR_TIMEOUT, example_process),
        example_world\<lparr>trace := [PreSyscall, Waitpid 4242 1, PostSyscall]\<rparr>)
   \<and> gnupg_wait_process ''gpg'' 4242 0 True (example_world\<lparr>answers := [Ok 0]\<rparr>) =
       ((GPG_ERR_TIMEOUT, Some (-1)), example_world\<lparr>trace := [Waitpid 4242 1]\<rparr>)"
proof -
  have h: "answers (example_world\<lparr>answers := [Ok 0]\<rparr>) = Ok 0 # []"
    by simp
  show ?thesis
    using h nonblocking_wait_still_running [OF h, of example_process 4242 "''gpg''" True]
    by (simp add: example_world_def example_process_def WNOHANG_def)
qed

text \<open>
  C8. \<^verbatim>\<open>gnupg_process_get_fds\<close> succeeds, hands out the descriptor of every slot asked
  for and sets that slot to \<open>-1\<close>, leaving the other slots as they were. A second call
  gets \<open>-1\<close> for a slot that was handed out before. \<^verbatim>\<open>gnupg_process_release\<close> of the
  handle closes no descriptor at all.
\<close>

theorem get_fds_transfers_once:
  assumes "gnupg_process_get_fds process a b c = (ec, (o_in, o_out, o_err), process')"
  shows "ec = GPG_ERR_NO_ERROR
       \<and> o_in = (if a then Some (fd_in process) else None)
       \<and> o_out = (if b then Some (fd_out process) else None)
       \<and> o_err = (if c then Some (fd_err process) else None)
       \<and> fd_in process' = (if a then -1 else fd_in process)
       \<and> fd_out process' = (if b then -1 else fd_out process)
       \<and> fd_err process' = (if c then -1 else fd_err process)
       \<and> fst (snd (gnupg_process_get_fds process' a' b' c')) =
            (if a' then Some (if a then -1 else fd_in process) else None,
             if b' then Some (if b then -1 else fd_out process) else None,
             if c' then Some (if c then -1 else fd_err process) else None)
       \<and> closes_of (trace (gnupg_process_release (Some process') w)) = closes_of (trace w)"
proof -
  from assms have e: "ec = GPG_ERR_NO_ERROR"
    and o: "o_in = (if a then Some (fd_in process) else None)"
      "o_out = (if b then Some (fd_out process) else None)"
      "o_err = (if c then Some (fd_err process) else None)"
    and p: "process' = process\<lparr>fd_in := if a then -1 else fd_in process,
              fd_out := if b then -1 else fd_out process,
              fd_err := if c then -1 else fd_err process\<rparr>"
    by (simp_all add: get_fds_eq)
  have s: "fst (snd (gnupg_process_get_fds process' a' b' c')) =
            (if a' then Some (if a then -1 else fd_in process) else None,
             if b' then Some (if b then -1 else fd_out process) else None,
             if c' then Some (if c then -1 else fd_err process) else None)"
    by (simp add: get_fds_eq p)
  show ?thesis
    using e o s closes_release [of "Some process'" w] by (simp add: p)
qed

theorem get_fds_transfers_once_witness:
  "gnupg_process_get_fds example_process True True False =
     (GPG_ERR_NO_ERROR, (Some 5, Some 6, None), example_process\<lparr>fd_in := -1, fd_out := -1\<rparr>)
   \<and> fst (snd (gnupg_process_get_fds (example_process\<lparr>fd_in := -1, fd_out := -1\<rparr>)
         True True True)) = (Some (-1), Some (-1), Some 7)
   \<and> closes_of (trace (gnupg_process_release
         (Some (example_process\<lparr>fd_in := -1, fd_out := -1\<rparr>)) example_world))
       = closes_of (trace example_world)"
proof -
  have f: "fd_in example_process = 5" "fd_out example_process = 6" "fd_err example_process = 7"
    by (simp_all add: example_process_def)
  have h: "gnupg_process_get_fds example_process True True False =
     (GPG_ERR_NO_ERROR, (Some 5, Some 6, None), example_process\<lparr>fd_in := -1, fd_out := -1\<rparr>)"
    by (simp add: get_fds_eq f)
  from get_fds_transfers_once [OF h, of True True True example_world]
  have t: "fst (snd (gnupg_process_get_fds (example_process\<lparr>fd_in := -1, fd_out := -1\<rparr>)
         True True True)) = (Some (-1), Some (-1), Some 7)"
    "closes_of (trace (gnupg_process_release
         (Some (example_process\<lparr>fd_in := -1, fd_out := -1\<rparr>)) example_world))
       = closes_of (trace example_world)"
    by (simp_all add: f)
  from h t show ?thesis by (intro conjI)
qed

text \<open>
  C1. A handle released before termination should be sent a termination signal and
  waited for before it is freed. \<^verbatim>\<open>gnupg_process_release\<close> tests
  \<open>process->terminated\<close> and not its negation: released while its child runs
  (terminated flag not set), the handle is freed with no signal sent and no
  \<^verbatim>\<open>waitpid\<close>, the only call being the \<^verbatim>\<open>xfree\<close>; released after termination, the
  stored pid is sent \<open>SIGTERM\<close> and the wait returns at once.
\<close>

theorem release_live_handle_not_waited:
  "gnupg_process_release (Some example_process) (example_world\<lparr>answers := [Ok 0, Waited 4242 15]\<rparr>)
     = example_world\<lparr>answers := [Ok 0, Waited 4242 15], trace := [Free ''process'']\<rparr>
   \<and> trace (gnupg_process_release (Some (example_process\<lparr>terminated := True\<rparr>))
        (example_world\<lparr>answers := [Ok 0, Waited 4242 15]\<rparr>))
     = [PreSyscall, Kill 4242 15, PostSyscall, Free ''process'']"
  by (simp add: gnupg_process_release_def gnupg_process_terminate_def process_kill_def
      sys_kill_def next_answer_def gnupg_process_wait_def pre_syscall_def post_syscall_def
      xfree_def called_def example_process_def example_world_def SIGTERM_def)

section \<open>The claim about the classification of an exit status\<close>

lemma status_examples:
  "WIFEXITED 0" "WEXITSTATUS 0 = 0"
  "WIFEXITED 9472" "WEXITSTATUS 9472 = 37"
  "WIFEXITED 32512" "WEXITSTATUS 32512 = 127"
  "\<not> WIFEXITED 15"
  by (simp_all add: WIFEXITED_def WEXITSTATUS_def)

lemma wait_process_examples:
  "fst (gnupg_wait_process ''gpg'' 4242 1 True (example_world\<lparr>answers := [Waited 4242 0]\<rparr>))
     = (GPG_ERR_NO_ERROR, Some 0)"
  "fst (gnupg_wait_process ''gpg'' 4242 1 True (example_world\<lparr>answers := [Waited 4242 32512]\<rparr>))
     = (GPG_ERR_CONFIGURATION, Some (-1))"
  "fst (gnupg_wait_process ''gpg'' 4242 1 True (example_world\<lparr>answers := [Waited 4242 15]\<rparr>))
     = (GPG_ERR_GENERAL, Some (-1))"
  by (simp_all add: gnupg_wait_process_def waitpid_call_Waited status_examples log_error_def)

text \<open>
  C4. When \<^verbatim>\<open>waitpid\<close> reaps a child with status \<open>st\<close>, \<^verbatim>\<open>gnupg_wait_process\<close> returns
  success for a normal exit with code 0 (storing 0 in the exit code place if there is
  one), \<open>GPG_ERR_CONFIGURATION\<close> for a normal exit with code 127, \<open>GPG_ERR_GENERAL\<close> for
  a normal exit with another code, which it stores in the exit code place if there is
  one and logs otherwise, and \<open>GPG_ERR_GENERAL\<close> for a child that did not exit
  normally, with the exit code place left at \<open>-1\<close>.
\<close>

theorem wait_process_classification:
  assumes "answers w = Waited q st # rest" and "q \<noteq> -1" and "q \<noteq> 0" and "p \<noteq> -1"
  shows "(WIFEXITED st \<and> WEXITSTATUS st = 0 \<longrightarrow>
            gnupg_wait_process pgm p hang r w =
              ((GPG_ERR_NO_ERROR, if r then Some 0 else None),
               w\<lparr>answers := rest,
                 trace := trace w @ [Waitpid p (if hang \<noteq> 0 then 0 else WNOHANG)]\<rparr>))
       \<and> (WIFEXITED st \<and> WEXITSTATUS st = 127 \<longrightarrow>
            gnupg_wait_process pgm p hang r w =
              ((GPG_ERR_CONFIGURATION, if r then Some (-1) else None),
               w\<lparr>answers := rest,
                 trace := trace w @ [Waitpid p (if hang \<noteq> 0 then 0 else WNOHANG),
                   LogError ''error running %s: probably not installed'' [pgm] []]\<rparr>))
       \<and> (WIFEXITED st \<and> WEXITSTATUS st \<noteq> 0 \<and> WEXITSTATUS st \<noteq> 127 \<longrightarrow>
            gnupg_wait_process pgm p hang True w =
              ((GPG_ERR_GENERAL, Some (WEXITSTATUS st)),
               w\<lparr>answers := rest,
                 trace := trace w @ [Waitpid p (if hang \<noteq> 0 then 0 else WNOHANG)]\<rparr>)
          \<and> gnupg_wait_process pgm p hang False w =
              ((GPG_ERR_GENERAL, None),
               w\<lparr>answers := rest,
                 trace := trace w @ [Waitpid p (if hang \<noteq> 0 then 0 else WNOHANG),
                   LogError ''error running %s: exit status %d'' [pgm] [WEXITSTATUS st]]\<rparr>))
       \<and> (\<not> WIFEXITED st \<longrightarrow>
            gnupg_wait_process pgm p hang r w =
              ((GPG_ERR_GENERAL, if r then Some (-1) else None),
               w\<lparr>answers := rest,
                 trace := trace w @ [Waitpid p (if hang \<noteq> 0 then 0 else WNOHANG),
                   LogError ''error running %s: terminated'' [pgm] []]\<rparr>))"
  using assms
  by (simp add: gnupg_wait_process_def waitpid_call_Waited log_error_def called_def)

theorem wait_process_classification_witness:
  "answers (example_world\<lparr>answers := [Waited 4242 9472]\<rparr>) = Waited 4242 9472 # []
   \<and> WIFEXITED 9472 \<and> WEXITSTATUS 9472 = 37
   \<and> gnupg_wait_process ''gpg'' 4242 1 True (example_world\<lparr>answers := [Waited 4242 9472]\<rparr>) =
       ((GPG_ERR_GENERAL, Some 37), example_world\<lparr>trace := [Waitpid 4242 0]\<rparr>)
   \<and> gnupg_wait_process ''gpg'' 4242 1 False (example_world\<lparr>answers := [Waited 4242 9472]\<rparr>) =
       ((GPG_ERR_GENERAL, None),
        example_world\<lparr>trace := [Waitpid 4242 0,
           LogError ''error running %s: exit status %d'' [''gpg''] [37]]\<rparr>)"
proof -
  have h: "answers (example_world\<lparr>answers := [Waited 4242 9472]\<rparr>) = Waited 4242 9472 # []"
    by simp
  have q: "(4242::int) \<noteq> -1" "(4242::int) \<noteq> 0"
    by simp_all
  show ?thesis
    using h wait_process_classification [OF h q q(1), of "''gpg''" 1 True]
    by (simp add: status_examples example_world_def)
qed

section \<open>Facts about the batch wait\<close>

lemma wait_processes_loop_zero:
  "wait_processes_loop pids hang 0 r ec w = ((ec, 0, r), w)"
  by (subst wait_processes_loop.simps) simp

lemma wait_processes_loop_unfold:
  "0 < left \<Longrightarrow>
   wait_processes_loop pids hang left r ec w =
     (case waitpid_call (-1) (if hang \<noteq> 0 then 0 else WNOHANG) w of
        ((p, status), w1) \<Rightarrow>
          if p = -1 then
            ((gpg_err_code_from_errno (errno w1), left, r),
             log_error ''waiting for processes to terminate failed: %s'' [] [] w1)
          else if p = 0 then ((GPG_ERR_TIMEOUT, left, r), w1)
          else if find_pid p pids = length pids then
            (case store_result p status w1 of
               (ec', w2) \<Rightarrow>
                 if ec' \<noteq> GPG_ERR_NO_ERROR then ((ec', left, r), w2)
                 else wait_processes_loop pids hang left r ec' w2)
          else if r ! find_pid p pids \<noteq> -1 then
            ((GPG_ERR_GENERAL, left, r), log_error ''PID %d was reused'' [] [p] w1)
          else
            wait_processes_loop pids hang (left - 1) (r[find_pid p pids := status]) ec w1)"
  by (subst wait_processes_loop.simps) simp



lemma find_pid_nth: "p \<in> set pids \<Longrightarrow> pids ! find_pid p pids = p"
  by (induction pids) auto

lemma store_result_Ok:
  "answers w = Ok v # rest \<Longrightarrow>
   store_result p e w =
     (GPG_ERR_NO_ERROR,
      w\<lparr>answers := rest, trace := trace w @ [Alloc 1],
        terminated_children := (p, e) # terminated_children w\<rparr>)"
  by (simp add: store_result_def xtrymalloc_def next_answer_def called_def)

lemma store_result_Err:
  "answers w = Err e' # rest \<Longrightarrow>
   store_result p e w =
     (gpg_err_code_from_syserror (w\<lparr>errno := e'\<rparr>),
      w\<lparr>errno := e', answers := rest, trace := trace w @ [Alloc 1]\<rparr>)"
  by (simp add: store_result_def xtrymalloc_def next_answer_def called_def
      gpg_err_code_from_syserror_def)






lemma unlink_child_map_of:
  "unlink_child p cs = (case map_of cs p of None \<Rightarrow> None | Some e \<Rightarrow> Some (e, remove1 (p, e) cs))"
  by (induction cs) (auto split: option.splits)




lemma get_result_found:
  "map_of (terminated_children w) p = Some e \<Longrightarrow>
   get_result p x w =
     ((1, e), w\<lparr>trace := trace w @ [Free ''terminated_child''],
               terminated_children := remove1 (p, e) (terminated_children w)\<rparr>)"
  by (simp add: get_result_def unlink_child_map_of xfree_def called_def)

lemma get_result_missing:
  "map_of (terminated_children w) p = None \<Longrightarrow> get_result p x w = ((0, x), w)"
  by (simp add: get_result_def unlink_child_map_of)







lemma waitpid_call_Err:
  "answers w = Err e # rest \<Longrightarrow> e \<noteq> EINTR \<Longrightarrow>
   waitpid_call p opt w =
     ((-1, 0), w\<lparr>errno := e, answers := rest, trace := trace w @ [Waitpid p opt]\<rparr>)"
  by (simp add: waitpid_call_def sys_waitpid_Err waitpid_retry_Err)



lemma wait_processes_loop_reuse:
  assumes "0 < left" and "answers w = Waited q st # rest"
    and "q \<noteq> -1" and "q \<noteq> 0"
    and "find_pid q pids \<noteq> length pids" and "r ! find_pid q pids \<noteq> -1"
  shows "wait_processes_loop pids hang left r ec w =
           ((GPG_ERR_GENERAL, left, r),
            w\<lparr>answers := rest,
              trace := trace w @ [Waitpid (-1) (if hang \<noteq> 0 then 0 else WNOHANG),
                LogError ''PID %d was reused'' [] [q]]\<rparr>)"
  using assms
  by (subst wait_processes_loop.simps)
    (simp add: waitpid_call_Waited log_error_def called_def)

lemma classify_slot_code:
  "fst (fst (classify_slot n d x ec w)) =
     (if x = -1 then ec
      else if WIFEXITED x \<and> WEXITSTATUS x = 127 then GPG_ERR_CONFIGURATION
      else if WIFEXITED x \<and> WEXITSTATUS x = 0 then ec
      else GPG_ERR_GENERAL)"
  by (simp add: classify_slot_def)

lemma classify_Cons_code:
  "fst (fst (wait_processes_classify names d (x # xs) ec w)) =
     fst (fst (wait_processes_classify (tl names) d xs
       (fst (fst (classify_slot (case names of [] \<Rightarrow> [] | n # ns \<Rightarrow> n) d x ec w)))
       (snd (classify_slot (case names of [] \<Rightarrow> [] | n # ns \<Rightarrow> n) d x ec w))))"
  by (simp split: prod.splits)

lemma failed_slots_Nil [simp]: "failed_slots [] = []"
  by (simp add: failed_slots_def)

lemma failed_slots_Cons:
  "failed_slots (x # xs) =
     (if x \<noteq> -1 \<and> \<not> (WIFEXITED x \<and> WEXITSTATUS x = 0) then x # failed_slots xs
      else failed_slots xs)"
  by (simp add: failed_slots_def)

text \<open>
  The code the third loop returns: the code it was entered with when no slot makes it
  assign, and else the code of the last slot that does.
\<close>

lemma classify_code_exact:
  "fst (fst (wait_processes_classify names d r ec w)) =
     (if failed_slots r = [] then ec
      else if WIFEXITED (last (failed_slots r)) \<and> WEXITSTATUS (last (failed_slots r)) = 127
      then GPG_ERR_CONFIGURATION else GPG_ERR_GENERAL)"
proof (induction r arbitrary: names ec w)
  case Nil
  show ?case by simp
next
  case (Cons x xs)
  let ?n = "case names of [] \<Rightarrow> [] | n # ns \<Rightarrow> n"
  let ?ec = "fst (fst (classify_slot ?n d x ec w))"
  let ?w = "snd (classify_slot ?n d x ec w)"
  have s: "fst (fst (wait_processes_classify names d (x # xs) ec w)) =
      (if failed_slots xs = [] then ?ec
       else if WIFEXITED (last (failed_slots xs)) \<and> WEXITSTATUS (last (failed_slots xs)) = 127
       then GPG_ERR_CONFIGURATION else GPG_ERR_GENERAL)"
    using Cons.IH [of "tl names" ?ec ?w] by (simp only: classify_Cons_code)
  show ?case
  proof (cases "failed_slots xs = []")
    case True
    then show ?thesis
      unfolding s by (auto simp: classify_slot_code failed_slots_Cons)
  next
    case False
    then show ?thesis
      unfolding s by (simp add: failed_slots_Cons)
  qed
qed


text \<open>The code of a call whose first allocation succeeds, from the result of its wait loop.\<close>

lemma gnupg_wait_processes_code:
  assumes "(if re then (True, v) else xtrymalloc (length pids) v) = (True, w0)"
    and "wait_processes_drain pids (length pids) w0 = ((left0, r0), w1)"
    and "wait_processes_loop pids hang left0 r0 GPG_ERR_NO_ERROR w1 = ((ec, left, r), w2)"
  shows "fst (fst (gnupg_wait_processes names pids hang re v)) =
           fst (fst (wait_processes_classify names (\<not> re) r ec w2))"
  using assms by (simp add: gnupg_wait_processes_def split: prod.splits)

lemmas batch_eval =
  gnupg_wait_processes_def wait_processes_loop_unfold wait_processes_loop_zero
  waitpid_call_Waited waitpid_call_Ok waitpid_call_Err store_result_Ok store_result_Err
  get_result_found get_result_missing classify_slot_def status_examples
  log_error_def called_def example_world_def example_batch_world_def
  gpg_err_code_from_syserror_def gpg_err_code_from_errno_def ENOMEM_def EINTR_def WNOHANG_def

section \<open>The claims about the batch wait\<close>




text \<open>
  C3, as amended. When \<^verbatim>\<open>waitpid (-1)\<close> returns a requested pid whose slot already
  holds a status, the wait loop stops at once with \<open>GPG_ERR_GENERAL\<close>: no further
  \<^verbatim>\<open>waitpid\<close> is issued, \<open>left\<close> and the slots stay as they were (the pids not yet
  resolved keep \<open>-1\<close>). The classification loop that follows runs over these slots, and
  the last slot that holds a status other than a normal exit with code 0 decides: the
  result is \<open>GPG_ERR_CONFIGURATION\<close> if there is such a slot and the last of them holds
  a normal exit with code 127, and \<open>GPG_ERR_GENERAL\<close> in every other case. This is the
  code that a call of \<^verbatim>\<open>gnupg_wait_processes\<close> returns when its wait loop comes to
  such a state.
\<close>

theorem pid_resolved_twice_stops_wait:
  assumes "0 < left" and "answers w = Waited q st # rest"
    and "q \<noteq> -1" and "q \<noteq> 0"
    and "find_pid q pids \<noteq> length pids" and "r ! find_pid q pids \<noteq> -1"
  shows "wait_processes_loop pids hang left r ec w =
           ((GPG_ERR_GENERAL, left, r),
            w\<lparr>answers := rest,
              trace := trace w @ [Waitpid (-1) (if hang \<noteq> 0 then 0 else WNOHANG),
                LogError ''PID %d was reused'' [] [q]]\<rparr>)
       \<and> fst (fst (wait_processes_classify names d r GPG_ERR_GENERAL w')) =
           (if failed_slots r \<noteq> [] \<and> WIFEXITED (last (failed_slots r))
               \<and> WEXITSTATUS (last (failed_slots r)) = 127
            then GPG_ERR_CONFIGURATION else GPG_ERR_GENERAL)
       \<and> ((if re then (True, v) else xtrymalloc (length pids) v) = (True, w0)
          \<and> wait_processes_drain pids (length pids) w0 = ((left0, r0), w1)
          \<and> wait_processes_loop pids hang left0 r0 GPG_ERR_NO_ERROR w1
              = wait_processes_loop pids hang left r ec w
          \<longrightarrow> fst (fst (gnupg_wait_processes names pids hang re v)) =
                (if failed_slots r \<noteq> [] \<and> WIFEXITED (last (failed_slots r))
                    \<and> WEXITSTATUS (last (failed_slots r)) = 127
                 then GPG_ERR_CONFIGURATION else GPG_ERR_GENERAL))"
proof -
  let ?w = "w\<lparr>answers := rest,
              trace := trace w @ [Waitpid (-1) (if hang \<noteq> 0 then 0 else WNOHANG),
                LogError ''PID %d was reused'' [] [q]]\<rparr>"
  let ?c = "if failed_slots r \<noteq> [] \<and> WIFEXITED (last (failed_slots r))
               \<and> WEXITSTATUS (last (failed_slots r)) = 127
            then GPG_ERR_CONFIGURATION else GPG_ERR_GENERAL"
  have l: "wait_processes_loop pids hang left r ec w = ((GPG_ERR_GENERAL, left, r), ?w)"
    using assms by (rule wait_processes_loop_reuse)
  have c: "fst (fst (wait_processes_classify ns b r GPG_ERR_GENERAL u)) = ?c" for ns b u
    by (simp add: classify_code_exact)
  have "fst (fst (gnupg_wait_processes names pids hang re v)) = ?c"
    if h: "(if re then (True, v) else xtrymalloc (length pids) v) = (True, w0)
          \<and> wait_processes_drain pids (length pids) w0 = ((left0, r0), w1)
          \<and> wait_processes_loop pids hang left0 r0 GPG_ERR_NO_ERROR w1
              = wait_processes_loop pids hang left r ec w"
  proof -
    from h have a: "(if re then (True, v) else xtrymalloc (length pids) v) = (True, w0)"
      and b: "wait_processes_drain pids (length pids) w0 = ((left0, r0), w1)"
      and e: "wait_processes_loop pids hang left0 r0 GPG_ERR_NO_ERROR w1
          = ((GPG_ERR_GENERAL, left, r), ?w)"
      by (simp_all only: l)
    show ?thesis
      unfolding gnupg_wait_processes_code [OF a b e] by (rule c)
  qed
  with l c [of names d w'] show ?thesis
    by blast
qed

theorem pid_resolved_twice_stops_wait_witness:
  "answers (example_world\<lparr>answers := [Waited 5 0], trace := [Waitpid (-1) 0, Waitpid (-1) 0]\<rparr>)
       = Waited 5 0 # []
   \<and> find_pid 5 [5, 6, 7] \<noteq> length [5, 6, 7 :: int]
   \<and> [32512, 9472, -1 :: int] ! find_pid 5 [5, 6, 7] \<noteq> -1
   \<and> wait_processes_drain [5, 6, 7] (length [5, 6, 7 :: int])
         (example_world\<lparr>answers := [Waited 5 32512, Waited 6 9472, Waited 5 0]\<rparr>)
       = ((3, [-1, -1, -1]),
          example_world\<lparr>answers := [Waited 5 32512, Waited 6 9472, Waited 5 0]\<rparr>)
   \<and> wait_processes_loop [5, 6, 7] 1 3 [-1, -1, -1] GPG_ERR_NO_ERROR
         (example_world\<lparr>answers := [Waited 5 32512, Waited 6 9472, Waited 5 0]\<rparr>)
       = wait_processes_loop [5, 6, 7] 1 1 [32512, 9472, -1] GPG_ERR_NO_ERROR
           (example_world\<lparr>answers := [Waited 5 0], trace := [Waitpid (-1) 0, Waitpid (-1) 0]\<rparr>)
   \<and> wait_processes_loop [5, 6, 7] 1 1 [32512, 9472, -1] GPG_ERR_NO_ERROR
         (example_world\<lparr>answers := [Waited 5 0], trace := [Waitpid (-1) 0, Waitpid (-1) 0]\<rparr>)
       = ((GPG_ERR_GENERAL, 1, [32512, 9472, -1]),
          example_world\<lparr>trace := [Waitpid (-1) 0, Waitpid (-1) 0, Waitpid (-1) 0,
            LogError ''PID %d was reused'' [] [5]]\<rparr>)
   \<and> failed_slots [32512, 9472, -1] = [32512, 9472]
   \<and> fst (fst (wait_processes_classify [''gpg'', ''gpgsm'', ''scd''] False [32512, 9472, -1]
         GPG_ERR_GENERAL example_world)) = GPG_ERR_GENERAL
   \<and> fst (fst (gnupg_wait_processes [''gpg'', ''gpgsm'', ''scd''] [5, 6, 7] 1 True
         (example_world\<lparr>answers := [Waited 5 32512, Waited 6 9472, Waited 5 0]\<rparr>)))
       = GPG_ERR_GENERAL"
proof -
  let ?v = "example_world\<lparr>answers := [Waited 5 32512, Waited 6 9472, Waited 5 0]\<rparr>"
  let ?w = "example_world\<lparr>answers := [Waited 5 0], trace := [Waitpid (-1) 0, Waitpid (-1) 0]\<rparr>"
  let ?c = "if failed_slots [32512, 9472, -1] \<noteq> []
               \<and> WIFEXITED (last (failed_slots [32512, 9472, -1]))
               \<and> WEXITSTATUS (last (failed_slots [32512, 9472, -1])) = 127
            then GPG_ERR_CONFIGURATION else GPG_ERR_GENERAL"
  have h1: "(0::nat) < 1"
    and h2: "answers ?w = Waited 5 0 # []"
    and h3: "(5::int) \<noteq> -1" and h4: "(5::int) \<noteq> 0"
    and h5: "find_pid 5 [5, 6, 7] \<noteq> length [5, 6, 7 :: int]"
    and h6: "[32512, 9472, -1 :: int] ! find_pid 5 [5, 6, 7] \<noteq> -1"
    by simp_all
  note t = pid_resolved_twice_stops_wait [OF h1 h2 h3 h4 h5 h6, of 1 GPG_ERR_NO_ERROR
      "[''gpg'', ''gpgsm'', ''scd'']" False example_world True ?v ?v 3 "[-1, -1, -1]" ?v]
  have f: "failed_slots [32512, 9472, -1] = [32512, 9472]"
    by (simp add: failed_slots_def status_examples)
  have g: "?c = GPG_ERR_GENERAL"
    unfolding f by (simp add: status_examples)
  have k1: "(if True then (True, ?v) else xtrymalloc (length [5, 6, 7 :: int]) ?v) = (True, ?v)"
    by simp
  have k2: "wait_processes_drain [5, 6, 7] (length [5, 6, 7 :: int]) ?v = ((3, [-1, -1, -1]), ?v)"
    by (simp add: get_result_missing example_world_def)
  have a: "wait_processes_loop [5, 6, 7] 1 1 [32512, 9472, -1] GPG_ERR_NO_ERROR ?w
       = ((GPG_ERR_GENERAL, 1, [32512, 9472, -1]),
          example_world\<lparr>trace := [Waitpid (-1) 0, Waitpid (-1) 0, Waitpid (-1) 0,
            LogError ''PID %d was reused'' [] [5]]\<rparr>)"
    using t by (simp add: example_world_def)
  have k3: "wait_processes_loop [5, 6, 7] 1 3 [-1, -1, -1] GPG_ERR_NO_ERROR ?v
       = wait_processes_loop [5, 6, 7] 1 1 [32512, 9472, -1] GPG_ERR_NO_ERROR ?w"
    unfolding a by (simp add: batch_eval)
  have "fst (fst (wait_processes_classify [''gpg'', ''gpgsm'', ''scd''] False [32512, 9472, -1]
         GPG_ERR_GENERAL example_world)) = ?c"
    using t by blast
  then have b: "fst (fst (wait_processes_classify [''gpg'', ''gpgsm'', ''scd''] False
         [32512, 9472, -1] GPG_ERR_GENERAL example_world)) = GPG_ERR_GENERAL"
    by (simp only: g)
  have "fst (fst (gnupg_wait_processes [''gpg'', ''gpgsm'', ''scd''] [5, 6, 7] 1 True ?v)) = ?c"
    using t k1 k2 k3 by blast
  then have c: "fst (fst (gnupg_wait_processes [''gpg'', ''gpgsm'', ''scd''] [5, 6, 7] 1 True ?v))
       = GPG_ERR_GENERAL"
    by (simp only: g)
  from h2 h5 h6 k2 k3 a f b c show ?thesis
    by (intro conjI)
qed

theorem pid_resolved_twice_counterexample:
  "fst (gnupg_wait_processes [''gpg'', ''gpgsm''] [5, 6] 1 True
         (example_world\<lparr>answers := [Waited 5 32512, Waited 5 0]\<rparr>))
     = (GPG_ERR_CONFIGURATION, Some [32512, -1])
   \<and> GPG_ERR_CONFIGURATION \<noteq> GPG_ERR_GENERAL"
  by (simp add: batch_eval)

section \<open>Facts about closing descriptors\<close>

lemma except_entries_length:
  "-1 \<in> set except \<Longrightarrow> length (except_entries except) < length except"
  unfolding except_entries_def by (induction except) auto

lemma except_entries_end:
  "-1 \<in> set except \<Longrightarrow> except ! length (except_entries except) = -1"
proof -
  assume "-1 \<in> set except"
  then have "length (takeWhile (\<lambda>x. x \<noteq> -1) except) < length except"
    using except_entries_length [of except] by (simp add: except_entries_def)
  then have "\<not> except ! length (takeWhile (\<lambda>x. x \<noteq> -1) except) \<noteq> -1"
    by (rule nth_length_takeWhile)
  then show ?thesis by (simp add: except_entries_def)
qed

lemma except_entries_nth:
  "j < length (except_entries except) \<Longrightarrow> except ! j = except_entries except ! j"
  unfolding except_entries_def by (simp add: takeWhile_nth)

lemma except_entries_not_end:
  "j < length (except_entries except) \<Longrightarrow> except_entries except ! j \<noteq> -1"
proof -
  assume "j < length (except_entries except)"
  then have "except_entries except ! j \<in> set (takeWhile (\<lambda>x. x \<noteq> -1) except)"
    unfolding except_entries_def by (rule nth_mem)
  then show ?thesis by (rule set_takeWhileD [THEN conjunct2])
qed

lemma except_scan_miss:
  assumes "-1 \<in> set except"
  shows "i \<le> length (except_entries except) \<Longrightarrow> fd \<notin> set (drop i (except_entries except)) \<Longrightarrow>
     except_scan except fd es i = Some (length (except_entries except), es)"
proof (induction "length (except_entries except) - i" arbitrary: i)
  case 0
  then have "i = length (except_entries except)" by simp
  then show ?case
    using except_entries_end [OF assms] except_entries_length [OF assms]
    by (subst except_scan.simps) simp
next
  case (Suc k)
  then have lt: "i < length (except_entries except)" by simp
  then have d: "drop i (except_entries except)
      = except_entries except ! i # drop (Suc i) (except_entries except)"
    by (simp add: Cons_nth_drop_Suc)
  have ne: "except ! i \<noteq> fd" "except ! i \<noteq> -1"
    using Suc.prems(2) d except_entries_nth [OF lt] except_entries_not_end [OF lt] by auto
  have "k = length (except_entries except) - (i + 1)" "i + 1 \<le> length (except_entries except)"
    "fd \<notin> set (drop (i + 1) (except_entries except))"
    using Suc.hyps(2) Suc.prems(2) lt d by simp_all
  then have "except_scan except fd es (i + 1) = Some (length (except_entries except), es)"
    by (rule Suc.hyps(1))
  then show ?case
    using ne lt except_entries_length [OF assms]
    by (subst except_scan.simps) simp
qed

lemma except_scan_hit:
  assumes "-1 \<in> set except"
  shows "i \<le> length (except_entries except) \<Longrightarrow> fd \<in> set (drop i (except_entries except)) \<Longrightarrow>
     \<exists>j. i \<le> j \<and> j < length (except_entries except) \<and> except_entries except ! j = fd
       \<and> except_scan except fd es i = Some (j, j + 1)"
proof (induction "length (except_entries except) - i" arbitrary: i)
  case 0
  then show ?case by simp
next
  case (Suc k)
  then have lt: "i < length (except_entries except)" by simp
  then have d: "drop i (except_entries except)
      = except_entries except ! i # drop (Suc i) (except_entries except)"
    by (simp add: Cons_nth_drop_Suc)
  have n1: "except ! i \<noteq> -1" and il: "i < length except"
    using except_entries_nth [OF lt] except_entries_not_end [OF lt]
      except_entries_length [OF assms] lt by auto
  show ?case
  proof (cases "except ! i = fd")
    case True
    then have "except_scan except fd es i = Some (i, i + 1)"
      using n1 il by (subst except_scan.simps) simp
    then show ?thesis
      using True lt except_entries_nth [OF lt] by auto
  next
    case False
    then have "fd \<in> set (drop (i + 1) (except_entries except))"
      using Suc.prems(2) d except_entries_nth [OF lt] by auto
    moreover have "k = length (except_entries except) - (i + 1)" "i + 1 \<le> length (except_entries except)"
      using Suc.hyps(2) lt by simp_all
    ultimately have "\<exists>j. i + 1 \<le> j \<and> j < length (except_entries except)
        \<and> except_entries except ! j = fd
        \<and> except_scan except fd es (i + 1) = Some (j, j + 1)"
      using Suc.hyps(1) [of "i + 1"] by blast
    then obtain j where j: "i + 1 \<le> j" "j < length (except_entries except)"
        "except_entries except ! j = fd" "except_scan except fd es (i + 1) = Some (j, j + 1)"
      by blast
    have "except_scan except fd es i = Some (j, j + 1)"
      using False n1 il j(4) by (subst except_scan.simps) simp
    then show ?thesis using j by auto
  qed
qed

lemma upto_first: "fd < max_fd \<Longrightarrow> [fd..max_fd - 1] = fd # [fd + 1..max_fd - 1]"
  by (subst upto.simps) simp

lemma upto_none: "\<not> fd < max_fd \<Longrightarrow> [fd..max_fd - 1] = []"
  by simp

lemma sorted_before:
  assumes "sorted xs" and "j < length xs" and "k \<le> j"
  shows "xs ! k \<le> xs ! j"
  using assms by (simp add: sorted_iff_nth_mono)

lemma close_except_loop_closes:
  assumes t: "-1 \<in> set except" and s: "sorted (except_entries except)"
  shows "es \<le> length (except_entries except) \<Longrightarrow>
         \<forall>j < es. except_entries except ! j < fd \<Longrightarrow>
         \<exists>e. close_except_loop except max_fd fd es w =
           Some (w\<lparr>errno := e,
                   trace := trace w @
                     map Close (filter (\<lambda>x. x \<notin> set (except_entries except)) [fd..max_fd - 1]),
                   open_fds := open_fds w -
                     set (filter (\<lambda>x. x \<notin> set (except_entries except)) [fd..max_fd - 1])\<rparr>)"
proof (induction "nat (max_fd - fd)" arbitrary: fd es w)
  case 0
  then have ge: "\<not> fd < max_fd" by simp
  then have "close_except_loop except max_fd fd es w = Some w"
    by (subst close_except_loop.simps) simp
  moreover have "[fd..max_fd - 1] = []"
    using ge by simp
  ultimately have "close_except_loop except max_fd fd es w =
           Some (w\<lparr>errno := errno w,
                   trace := trace w @
                     map Close (filter (\<lambda>x. x \<notin> set (except_entries except)) [fd..max_fd - 1]),
                   open_fds := open_fds w -
                     set (filter (\<lambda>x. x \<notin> set (except_entries except)) [fd..max_fd - 1])\<rparr>)"
    by simp
  then show ?case by blast
next
  case (Suc n)
  let ?E = "except_entries except"
  let ?keep = "\<lambda>x. x \<notin> set ?E"
  from Suc.hyps(2) have lt: "fd < max_fd" and n: "n = nat (max_fd - (fd + 1))"
    by simp_all
  have up: "[fd..max_fd - 1] = fd # [fd + 1..max_fd - 1]"
    using lt by (rule upto_first)
  show ?case
  proof (cases "fd \<in> set ?E")
    case True
    have "fd \<in> set (drop es ?E)"
    proof -
      obtain j where j: "j < length ?E" "?E ! j = fd"
        using True by (auto simp: in_set_conv_nth)
      have "\<not> j < es" using Suc.prems(2) j(2) by auto
      then have "?E ! j = drop es ?E ! (j - es)" "j - es < length (drop es ?E)"
        using j(1) by simp_all
      then show ?thesis using j(2) by (metis nth_mem)
    qed
    then obtain j where j: "es \<le> j" "j < length ?E" "?E ! j = fd"
        "except_scan except fd es es = Some (j, j + 1)"
      using except_scan_hit [OF t Suc.prems(1), of fd es] by blast
    have nc: "except ! j \<noteq> -1"
      using except_entries_nth [OF j(2)] except_entries_not_end [OF j(2)] by simp
    have "\<forall>k < j + 1. ?E ! k < fd + 1"
    proof (intro allI impI)
      fix k assume "k < j + 1"
      then have "?E ! k \<le> ?E ! j"
        using sorted_before [OF s j(2), of k] by simp
      then show "?E ! k < fd + 1" using j(3) by simp
    qed
    moreover have "j + 1 \<le> length ?E" using j(2) by simp
    ultimately obtain e where e: "close_except_loop except max_fd (fd + 1) (j + 1) w =
           Some (w\<lparr>errno := e,
                   trace := trace w @ map Close (filter ?keep [fd + 1..max_fd - 1]),
                   open_fds := open_fds w - set (filter ?keep [fd + 1..max_fd - 1])\<rparr>)"
      using Suc.hyps(1) [OF n, of "j + 1" w] by blast
    have "close_except_loop except max_fd fd es w
        = close_except_loop except max_fd (fd + 1) (j + 1) w"
      using lt j(4) nc by (subst close_except_loop.simps) simp
    then have "close_except_loop except max_fd fd es w =
           Some (w\<lparr>errno := e,
                   trace := trace w @ map Close (filter ?keep [fd..max_fd - 1]),
                   open_fds := open_fds w - set (filter ?keep [fd..max_fd - 1])\<rparr>)"
      using e True by (simp add: up)
    then show ?thesis by blast
  next
    case False
    then have "fd \<notin> set (drop es ?E)"
      by (meson in_set_dropD)
    then have sc: "except_scan except fd es es = Some (length ?E, es)"
      using except_scan_miss [OF t Suc.prems(1)] by simp
    have en: "except ! length ?E = -1"
      using t by (rule except_entries_end)
    have "\<forall>k < es. ?E ! k < fd + 1"
      using Suc.prems(2) by fastforce
    then obtain e where e: "close_except_loop except max_fd (fd + 1) es (sys_close fd w) =
           Some ((sys_close fd w)\<lparr>errno := e,
                   trace := trace (sys_close fd w) @ map Close (filter ?keep [fd + 1..max_fd - 1]),
                   open_fds := open_fds (sys_close fd w) - set (filter ?keep [fd + 1..max_fd - 1])\<rparr>)"
      using Suc.hyps(1) [OF n Suc.prems(1), of "sys_close fd w"] by blast
    have "close_except_loop except max_fd fd es w
        = close_except_loop except max_fd (fd + 1) es (sys_close fd w)"
      using lt sc en by (subst close_except_loop.simps) simp
    moreover have "open_fds w - {fd} - set (filter ?keep [fd + 1..max_fd - 1])
        = open_fds w - insert fd (set (filter ?keep [fd + 1..max_fd - 1]))"
      by blast
    ultimately have "close_except_loop except max_fd fd es w =
           Some (w\<lparr>errno := e,
                   trace := trace w @ map Close (filter ?keep [fd..max_fd - 1]),
                   open_fds := open_fds w - set (filter ?keep [fd..max_fd - 1])\<rparr>)"
      using e False by (simp add: up sys_close_def)
    then show ?thesis by blast
  qed
qed

lemma close_loop_closes:
  "\<exists>e. close_loop max_fd fd w =
     w\<lparr>errno := e, trace := trace w @ map Close [fd..max_fd - 1],
       open_fds := open_fds w - set [fd..max_fd - 1]\<rparr>"
proof (induction "nat (max_fd - fd)" arbitrary: fd w)
  case 0
  then have ge: "\<not> fd < max_fd" by simp
  then have "close_loop max_fd fd w = w"
    by (subst close_loop.simps) simp
  moreover have "[fd..max_fd - 1] = []"
    using ge by simp
  ultimately have "close_loop max_fd fd w =
     w\<lparr>errno := errno w, trace := trace w @ map Close [fd..max_fd - 1],
       open_fds := open_fds w - set [fd..max_fd - 1]\<rparr>"
    by simp
  then show ?case by blast
next
  case (Suc n)
  from Suc.hyps(2) have lt: "fd < max_fd" and n: "n = nat (max_fd - (fd + 1))"
    by simp_all
  have up: "[fd..max_fd - 1] = fd # [fd + 1..max_fd - 1]"
    using lt by (rule upto_first)
  obtain e where e: "close_loop max_fd (fd + 1) (sys_close fd w) =
      (sys_close fd w)\<lparr>errno := e,
        trace := trace (sys_close fd w) @ map Close [fd + 1..max_fd - 1],
        open_fds := open_fds (sys_close fd w) - set [fd + 1..max_fd - 1]\<rparr>"
    using Suc.hyps(1) [OF n, of "sys_close fd w"] by blast
  have "close_loop max_fd fd w = close_loop max_fd (fd + 1) (sys_close fd w)"
    using lt by (subst close_loop.simps) simp
  moreover have "open_fds w - {fd} - set [fd + 1..max_fd - 1]
      = open_fds w - insert fd (set [fd + 1..max_fd - 1])"
    by blast
  ultimately have "close_loop max_fd fd w =
     w\<lparr>errno := e, trace := trace w @ map Close [fd..max_fd - 1],
       open_fds := open_fds w - set [fd..max_fd - 1]\<rparr>"
    using e by (simp add: up sys_close_def)
  then show ?case by blast
qed

section \<open>The claim about closing descriptors\<close>

text \<open>
  C5. For an exception list that has its \<open>-1\<close> and whose entries before it ascend,
  \<^verbatim>\<open>close_all_fds (first, except)\<close> returns (it reads nothing past the \<open>-1\<close>) and
  has called \<^verbatim>\<open>close\<close> exactly for the descriptors from \<open>first\<close> up to
  \<open>get_max_fds () - 1\<close> that are not entries of the list, in ascending order: these
  descriptors have left the descriptor table and every other descriptor, the entries of
  the list among them, is as it was. With no exception list it has closed every
  descriptor from \<open>first\<close> up to \<open>get_max_fds () - 1\<close>. In both cases \<open>errno\<close> is 0
  afterwards.
\<close>

theorem close_all_fds_closes_range_except:
  "(-1 \<in> set except \<and> sorted (except_entries except) \<longrightarrow>
      close_all_fds first (Some except) w =
        Some (w\<lparr>errno := 0,
                trace := trace w @
                  map Close (filter (\<lambda>fd. fd \<notin> set (except_entries except))
                    [first..get_max_fds w - 1]),
                open_fds := open_fds w -
                  {fd. first \<le> fd \<and> fd < get_max_fds w \<and> fd \<notin> set (except_entries except)}\<rparr>))
   \<and> close_all_fds first None w =
        Some (w\<lparr>errno := 0,
                trace := trace w @ map Close [first..get_max_fds w - 1],
                open_fds := open_fds w - {fd. first \<le> fd \<and> fd < get_max_fds w}\<rparr>)"
proof (intro conjI impI)
  assume a: "-1 \<in> set except \<and> sorted (except_entries except)"
  have s: "set (filter (\<lambda>fd. fd \<notin> set (except_entries except)) [first..get_max_fds w - 1])
      = {fd. first \<le> fd \<and> fd < get_max_fds w \<and> fd \<notin> set (except_entries except)}"
    by auto
  obtain e where "close_except_loop except (get_max_fds w) first 0 w =
           Some (w\<lparr>errno := e,
                   trace := trace w @
                     map Close (filter (\<lambda>x. x \<notin> set (except_entries except)) [first..get_max_fds w - 1]),
                   open_fds := open_fds w -
                     set (filter (\<lambda>x. x \<notin> set (except_entries except)) [first..get_max_fds w - 1])\<rparr>)"
    using close_except_loop_closes [of except 0 first "get_max_fds w" w] a by auto
  then show "close_all_fds first (Some except) w =
        Some (w\<lparr>errno := 0,
                trace := trace w @
                  map Close (filter (\<lambda>fd. fd \<notin> set (except_entries except))
                    [first..get_max_fds w - 1]),
                open_fds := open_fds w -
                  {fd. first \<le> fd \<and> fd < get_max_fds w \<and> fd \<notin> set (except_entries except)}\<rparr>)"
    by (simp add: close_all_fds_def s)
next
  have s: "{first..get_max_fds w - 1} = {fd. first \<le> fd \<and> fd < get_max_fds w}"
    by auto
  obtain e where "close_loop (get_max_fds w) first w =
     w\<lparr>errno := e, trace := trace w @ map Close [first..get_max_fds w - 1],
       open_fds := open_fds w - set [first..get_max_fds w - 1]\<rparr>"
    using close_loop_closes by blast
  then show "close_all_fds first None w =
        Some (w\<lparr>errno := 0,
                trace := trace w @ map Close [first..get_max_fds w - 1],
                open_fds := open_fds w - {fd. first \<le> fd \<and> fd < get_max_fds w}\<rparr>)"
    by (simp add: close_all_fds_def s)
qed

theorem close_all_fds_closes_range_except_witness:
  "-1 \<in> set [4, 6, -1 :: int] \<and> sorted (except_entries [4, 6, -1])
   \<and> close_all_fds 3 (Some [4, 6, -1]) example_world =
       Some (example_world\<lparr>trace := [Close 3, Close 5, Close 7], open_fds := {0, 1, 2, 4, 6}\<rparr>)
   \<and> close_all_fds 3 None example_world =
       Some (example_world\<lparr>trace := [Close 3, Close 4, Close 5, Close 6, Close 7],
         open_fds := {0, 1, 2}\<rparr>)"
proof -
  have e: "except_entries [4, 6, -1] = [4, 6]"
    by (simp add: except_entries_def)
  have h: "-1 \<in> set [4, 6, -1 :: int] \<and> sorted (except_entries [4, 6, -1])"
    by (simp add: e)
  have m: "get_max_fds example_world = 8"
    by (simp add: get_max_fds_def example_world_def atoi_def)
  have u: "[3..get_max_fds example_world - 1] = [3, 4, 5, 6, 7]"
    by (simp add: m upto_rec1)
  note t = close_all_fds_closes_range_except [of "[4, 6, -1]" 3 example_world]
  have r1: "example_world\<lparr>errno := 0,
        trace := trace example_world @
          map Close (filter (\<lambda>fd. fd \<notin> set (except_entries [4, 6, -1]))
            [3..get_max_fds example_world - 1]),
        open_fds := open_fds example_world -
          {fd. 3 \<le> fd \<and> fd < get_max_fds example_world \<and> fd \<notin> set (except_entries [4, 6, -1])}\<rparr>
      = example_world\<lparr>trace := [Close 3, Close 5, Close 7], open_fds := {0, 1, 2, 4, 6}\<rparr>"
    unfolding e u m by (auto simp: example_world_def)
  have r2: "example_world\<lparr>errno := 0,
        trace := trace example_world @ map Close [3..get_max_fds example_world - 1],
        open_fds := open_fds example_world - {fd. 3 \<le> fd \<and> fd < get_max_fds example_world}\<rparr>
      = example_world\<lparr>trace := [Close 3, Close 4, Close 5, Close 6, Close 7],
          open_fds := {0, 1, 2}\<rparr>"
    unfolding u m by (auto simp: example_world_def)
  have a: "close_all_fds 3 (Some [4, 6, -1]) example_world =
       Some (example_world\<lparr>trace := [Close 3, Close 5, Close 7], open_fds := {0, 1, 2, 4, 6}\<rparr>)"
    using t h unfolding r1 by blast
  have b: "close_all_fds 3 None example_world =
       Some (example_world\<lparr>trace := [Close 3, Close 4, Close 5, Close 6, Close 7],
         open_fds := {0, 1, 2}\<rparr>)"
    using t unfolding r2 by blast
  from h a b show ?thesis by blast
qed

section \<open>Facts about listing the open descriptors\<close>

lemma capacity_after_Suc: "capacity_after (Suc k) = grow_narray (capacity_after k)"
  by (simp add: capacity_after_def)

lemma capacity_after_closed:
  "capacity_after k = (if k < 7 then 32 * (k + 1) else 256 * (k - 6))"
proof (induction k)
  case 0
  then show ?case by (simp add: capacity_after_def)
next
  case (Suc k)
  consider "k < 6" | "k = 6" | "6 < k" by linarith
  then show ?case
  proof cases
    case 1
    then show ?thesis using Suc by (simp add: capacity_after_Suc grow_narray_def)
  next
    case 2
    have "capacity_after (Suc k) = grow_narray (capacity_after k)"
      by (rule capacity_after_Suc)
    also have "\<dots> = 256"
      using Suc 2 by (simp add: grow_narray_def)
    finally show ?thesis using 2 by simp
  next
    case 3
    then have "capacity_after (Suc k) = 256 * (k - 6) + 256"
      using Suc by (simp add: capacity_after_Suc grow_narray_def)
    also have "\<dots> = 256 * (Suc k - 6)"
      using 3 by simp
    finally show ?thesis using 3 by simp
  qed
qed

lemma capacity_not_geometric:
  "\<not> (\<exists>c>1. \<forall>k. c * real (capacity_after k) \<le> real (capacity_after (Suc k)))"
proof
  assume "\<exists>c>1. \<forall>k. c * real (capacity_after k) \<le> real (capacity_after (Suc k))"
  then obtain c :: real where c: "1 < c"
    and g: "\<And>k. c * real (capacity_after k) \<le> real (capacity_after (Suc k))"
    by blast
  from c have "0 < c - 1" by simp
  then obtain m :: nat where m: "1 < real m * (c - 1)"
    using reals_Archimedean3 by blast
  then have m0: "0 < m"
    by (cases m) simp_all
  have a: "capacity_after (m + 6) = 256 * m" "capacity_after (Suc (m + 6)) = 256 * m + 256"
    using m0 by (simp_all add: capacity_after_closed)
  from g [of "m + 6"] have "c * real (256 * m) \<le> real (256 * m + 256)"
    unfolding a .
  then have "c * real m \<le> real m + 1" by simp
  then have "real m * (c - 1) \<le> 1" by (simp add: algebra_simps)
  with m show False by simp
qed

lemma sys_fstat_open:
  "fd \<in> open_fds w \<Longrightarrow> sys_fstat fd w = (0, w\<lparr>trace := trace w @ [Fstat fd]\<rparr>)"
  by (simp add: sys_fstat_def called_def)

lemma sys_fstat_closed:
  "fd \<notin> open_fds w \<Longrightarrow>
     sys_fstat fd w = (-1, w\<lparr>errno := EBADF, trace := trace w @ [Fstat fd]\<rparr>)"
  by (simp add: sys_fstat_def called_def)

lemma sys_realloc_Ok:
  "answers w = Ok v # rest \<Longrightarrow>
     sys_realloc n w = (True, w\<lparr>answers := rest, trace := trace w @ [Realloc n]\<rparr>)"
  by (simp add: sys_realloc_def next_answer_def called_def)

lemma sys_realloc_Err:
  "answers w = Err e # rest \<Longrightarrow>
     sys_realloc n w = (False, w\<lparr>errno := e, answers := rest, trace := trace w @ [Realloc n]\<rparr>)"
  by (simp add: sys_realloc_def next_answer_def called_def)

lemma sys_calloc_Ok:
  "answers w = Ok v # rest \<Longrightarrow>
     sys_calloc n w = (True, w\<lparr>answers := rest, trace := trace w @ [Alloc n]\<rparr>)"
  by (simp add: sys_calloc_def next_answer_def called_def)

lemma sys_calloc_Err:
  "answers w = Err e # rest \<Longrightarrow>
     sys_calloc n w = (False, w\<lparr>errno := e, answers := rest, trace := trace w @ [Alloc n]\<rparr>)"
  by (simp add: sys_calloc_def next_answer_def called_def)

lemma open_fds_loop_grow:
  assumes "fd < max_fd" and "fd \<in> open_fds w" and "narray \<le> idx + 1"
    and "answers w = Ok v # rest"
  shows "open_fds_loop max_fd fd idx narray array w =
           open_fds_loop max_fd (fd + 1) (idx + 1) (grow_narray narray)
             ((array @ replicate (grow_narray narray - narray) 0)[idx := fd])
             (w\<lparr>answers := rest, trace := trace w @ [Fstat fd, Realloc (grow_narray narray)]\<rparr>)"
  using assms
  by (subst open_fds_loop.simps) (simp add: sys_fstat_open sys_realloc_Ok)

lemma open_fds_loop_realloc_fails:
  assumes "fd < max_fd" and "fd \<in> open_fds w" and "narray \<le> idx + 1"
    and "answers w = Err e # rest"
  shows "open_fds_loop max_fd fd idx narray array w =
           (None, w\<lparr>errno := e, answers := rest,
                    trace := trace w @ [Fstat fd, Realloc (grow_narray narray), Free ''array'']\<rparr>)"
  using assms
  by (subst open_fds_loop.simps) (simp add: sys_fstat_open sys_realloc_Err called_def)

lemma get_all_open_fds_calloc_fails:
  assumes "answers w = Err e # rest"
  shows "get_all_open_fds w =
           (None, w\<lparr>errno := e, answers := rest, trace := trace w @ [Alloc 32]\<rparr>)"
  using assms by (simp add: get_all_open_fds_def sys_calloc_Err)

lemma open_fds_loop_end:
  "\<not> fd < max_fd \<Longrightarrow> open_fds_loop max_fd fd idx narray array w = (Some (idx, narray, array), w)"
  by (subst open_fds_loop.simps) simp

lemma open_fds_loop_step:
  "fd < max_fd \<Longrightarrow>
   open_fds_loop max_fd fd idx narray array w =
     (case sys_fstat fd w of
        (r, w1) \<Rightarrow>
          if \<not> (r = -1 \<and> errno w1 = EBADF) then
            (if narray \<le> idx + 1 then
               (case sys_realloc (grow_narray narray) w1 of
                  (False, w2) \<Rightarrow> (None, called (Free ''array'') w2)
                | (True, w2) \<Rightarrow>
                    open_fds_loop max_fd (fd + 1) (idx + 1) (grow_narray narray)
                      ((array @ replicate (grow_narray narray - narray) 0)[idx := fd]) w2)
             else open_fds_loop max_fd (fd + 1) (idx + 1) narray (array[idx := fd]) w1)
          else open_fds_loop max_fd (fd + 1) idx narray array w1)"
  by (subst open_fds_loop.simps) simp

lemma get_all_open_fds_example:
  "fst (get_all_open_fds (example_fds_world\<lparr>answers := [Ok 0, Ok 0], proc_self_fd := None,
          rlimit_nofile := Some 35\<rparr>))
     = Some (map int [0..<33] @ [-1] @ replicate 30 0)"
  by (simp add: get_all_open_fds_def get_max_fds_def example_fds_world_def example_world_def
      sys_calloc_Ok sys_realloc_Ok sys_fstat_open sys_fstat_closed open_fds_loop_step
      open_fds_loop_end grow_narray_def INT32_MAX_def upt_rec numeral_eq_Suc)

section \<open>The claim about the buffer of the descriptor list\<close>

text \<open>
  C6, as amended. When \<^verbatim>\<open>get_all_open_fds\<close> finds an open descriptor and the buffer
  has no room for it and the end mark, it enlarges the buffer by a fixed number of
  elements: 32 while the capacity is below 256, and 256 from then on. After \<open>k\<close>
  enlargements the capacity is \<open>32 * (k + 1)\<close> for \<open>k < 7\<close> and \<open>256 * (k - 6)\<close> from
  then on. When \<^verbatim>\<open>calloc\<close> fails the function returns \<open>NULL\<close> with the \<open>errno\<close> of
  the failure, and when \<^verbatim>\<open>realloc\<close> fails it frees the buffer and returns \<open>NULL\<close>
  with the \<open>errno\<close> of the failure.
\<close>

theorem open_fds_buffer_growth:
  "(fd < max_fd \<and> fd \<in> open_fds w \<and> narray \<le> idx + 1 \<and> answers w = Ok v # rest \<longrightarrow>
      open_fds_loop max_fd fd idx narray array w =
        open_fds_loop max_fd (fd + 1) (idx + 1) (grow_narray narray)
          ((array @ replicate (grow_narray narray - narray) 0)[idx := fd])
          (w\<lparr>answers := rest, trace := trace w @ [Fstat fd, Realloc (grow_narray narray)]\<rparr>))
   \<and> grow_narray narray = (if narray < 256 then narray + 32 else narray + 256)
   \<and> capacity_after k = (if k < 7 then 32 * (k + 1) else 256 * (k - 6))
   \<and> (answers w = Err e # rest \<longrightarrow>
        get_all_open_fds w =
          (None, w\<lparr>errno := e, answers := rest, trace := trace w @ [Alloc 32]\<rparr>))
   \<and> (fd < max_fd \<and> fd \<in> open_fds w \<and> narray \<le> idx + 1 \<and> answers w = Err e # rest \<longrightarrow>
        open_fds_loop max_fd fd idx narray array w =
          (None, w\<lparr>errno := e, answers := rest,
                   trace := trace w @ [Fstat fd, Realloc (grow_narray narray), Free ''array'']\<rparr>))"
  using open_fds_loop_grow [of fd max_fd w narray idx v rest array]
    open_fds_loop_realloc_fails [of fd max_fd w narray idx e rest array]
    get_all_open_fds_calloc_fails [of w e rest]
    capacity_after_closed [of k]
  by (simp add: grow_narray_def)

theorem open_fds_buffer_growth_witness:
  "(31::int) < 40 \<and> 31 \<in> open_fds (example_fds_world\<lparr>answers := [Ok 0]\<rparr>)
   \<and> (32::nat) \<le> 31 + 1
   \<and> answers (example_fds_world\<lparr>answers := [Ok 0]\<rparr>) = Ok 0 # []
   \<and> answers (example_fds_world\<lparr>answers := [Err 12]\<rparr>) = Err 12 # []
   \<and> open_fds_loop 40 31 31 32 (replicate 32 0) (example_fds_world\<lparr>answers := [Ok 0]\<rparr>) =
        open_fds_loop 40 32 32 64 ((replicate 64 0)[31 := 31])
          (example_fds_world\<lparr>answers := [], trace := [Fstat 31, Realloc 64]\<rparr>)
   \<and> grow_narray 32 = 64 \<and> grow_narray 256 = 512 \<and> grow_narray 512 = 768
   \<and> get_all_open_fds (example_fds_world\<lparr>answers := [Err 12]\<rparr>) =
        (None, example_fds_world\<lparr>errno := 12, answers := [], trace := [Alloc 32]\<rparr>)
   \<and> open_fds_loop 40 31 31 32 (replicate 32 0) (example_fds_world\<lparr>answers := [Err 12]\<rparr>) =
        (None, example_fds_world\<lparr>errno := 12, answers := [],
           trace := [Fstat 31, Realloc 64, Free ''array'']\<rparr>)"
proof -
  let ?ok = "example_fds_world\<lparr>answers := [Ok 0]\<rparr>"
  let ?err = "example_fds_world\<lparr>answers := [Err 12]\<rparr>"
  have g: "grow_narray 32 = 64" "grow_narray 256 = 512" "grow_narray 512 = 768"
    by (simp_all add: grow_narray_def)
  have h1: "(31::int) < 40 \<and> 31 \<in> open_fds ?ok \<and> (32::nat) \<le> 31 + 1
      \<and> answers ?ok = Ok 0 # []"
    by (simp add: example_fds_world_def)
  have h2: "answers ?err = Err 12 # []"
    by simp
  have h3: "(31::int) < 40 \<and> 31 \<in> open_fds ?err \<and> (32::nat) \<le> 31 + 1
      \<and> answers ?err = Err 12 # []"
    by (simp add: example_fds_world_def)
  note t1 = open_fds_buffer_growth [where fd = 31 and max_fd = 40 and w = ?ok and narray = 32
      and idx = 31 and v = 0 and rest = "[]" and array = "replicate 32 0"]
  note t2 = open_fds_buffer_growth [where fd = 31 and max_fd = 40 and w = ?err and narray = 32
      and idx = 31 and e = 12 and rest = "[]" and array = "replicate 32 0"]
  have a: "open_fds_loop 40 31 31 32 (replicate 32 0) ?ok =
        open_fds_loop 40 (31 + 1) (31 + 1) (grow_narray 32)
          ((replicate 32 0 @ replicate (grow_narray 32 - 32) 0)[31 := 31])
          (?ok\<lparr>answers := [], trace := trace ?ok @ [Fstat 31, Realloc (grow_narray 32)]\<rparr>)"
    using t1 h1 by blast
  have b: "get_all_open_fds ?err =
        (None, ?err\<lparr>errno := 12, answers := [], trace := trace ?err @ [Alloc 32]\<rparr>)"
    using t2 h2 by blast
  have c: "open_fds_loop 40 31 31 32 (replicate 32 0) ?err =
        (None, ?err\<lparr>errno := 12, answers := [],
           trace := trace ?err @ [Fstat 31, Realloc (grow_narray 32), Free ''array'']\<rparr>)"
    using t2 h3 by blast
  have r: "replicate 32 (0::int) @ replicate 32 0 = replicate 64 0"
    by (simp add: replicate_add [symmetric])
  have tr: "trace example_fds_world = []"
    by (simp add: example_fds_world_def example_world_def)
  have a': "open_fds_loop 40 31 31 32 (replicate 32 0) ?ok =
        open_fds_loop 40 32 32 64 ((replicate 64 0)[31 := 31])
          (example_fds_world\<lparr>answers := [], trace := [Fstat 31, Realloc 64]\<rparr>)"
    using a by (simp add: g r tr)
  have b': "get_all_open_fds ?err =
        (None, example_fds_world\<lparr>errno := 12, answers := [], trace := [Alloc 32]\<rparr>)"
    using b by (simp add: tr)
  have c': "open_fds_loop 40 31 31 32 (replicate 32 0) ?err =
        (None, example_fds_world\<lparr>errno := 12, answers := [],
           trace := [Fstat 31, Realloc 64, Free ''array'']\<rparr>)"
    using c by (simp add: g tr)
  from h1 h2 g a' b' c' show ?thesis by blast
qed

theorem open_fds_buffer_growth_counterexample:
  "\<not> (\<exists>c>1. \<forall>k. c * real (capacity_after k) \<le> real (capacity_after (Suc k)))
   \<and> capacity_after 7 = 256 \<and> capacity_after 8 = 512 \<and> capacity_after 9 = 768
   \<and> capacity_after 10 = 1024"
  using capacity_not_geometric by (simp add: capacity_after_closed)

section \<open>The claim about detached spawning\<close>

lemma syserror_is_error [simp]: "gpg_err_code_from_syserror w \<noteq> GPG_ERR_NO_ERROR"
  by (simp add: gpg_err_code_from_syserror_def)

lemma spawn_detached_success:
  assumes "spawn_detached process pgm w = (Returns (GPG_ERR_NO_ERROR, p), w')"
  shows "p = process\<lparr>pid := -1, fd_in := -1, fd_out := -1, fd_err := -1,
                      wstatus := -1, terminated := True\<rparr>"
  using assms
  by (auto simp: spawn_detached_def Let_def split: prod.splits if_splits)

text \<open>
  C9. When \<^verbatim>\<open>gnupg_process_spawn\<close> is called with \<open>GNUPG_PROCESS_DETACHED\<close> and
  returns success, the place for the handle holds a handle whose terminated flag is
  set, whose pid is \<open>-1\<close>, whose three descriptors are \<open>-1\<close> and whose wait status is
  \<open>-1\<close>; its program name and flags are those of the call.
\<close>

theorem detached_spawn_handle_terminated:
  assumes "GNUPG_PROCESS_DETACHED \<in> fl"
    and "gnupg_process_spawn pgm argv1 fl r_process w = (Returns (GPG_ERR_NO_ERROR, h), w')"
  shows "h = Some \<lparr>pgmname = pgm, terminated = True, flags = fl, pid = -1,
                   fd_in = -1, fd_out = -1, fd_err = -1, wstatus = -1\<rparr>"
proof -
  let ?process = "\<lparr>pgmname = pgm, terminated = False, flags = fl, pid = 0,
                    fd_in = 0, fd_out = 0, fd_err = 0, wstatus = 0\<rparr>"
  obtain a w1 where x1:
    "xtrycalloc (length (case argv1 of None \<Rightarrow> [] | Some as \<Rightarrow> as) + 2) w = (a, w1)"
    by (metis prod.exhaust)
  obtain b w2 where x2: "xtrycalloc 1 w1 = (b, w2)"
    by (metis prod.exhaust)
  from assms(2) x1 have a: "a"
    by (cases a) (simp_all add: gnupg_process_spawn_def)
  from assms(2) x1 x2 a have b: "b"
    by (cases b) (simp_all add: gnupg_process_spawn_def)
  from assms x1 x2 a b
  have d: "(case spawn_detached ?process pgm w2 of
              (Returns (ec, process'), w3) \<Rightarrow> (Returns (ec, Some process'), w3)
            | (InChild, w3) \<Rightarrow> (InChild, w3)
            | (NullDeref, w3) \<Rightarrow> (NullDeref, w3)) = (Returns (GPG_ERR_NO_ERROR, h), w')"
    by (simp add: gnupg_process_spawn_def split: if_splits)
  then obtain p where p: "spawn_detached ?process pgm w2 = (Returns (GPG_ERR_NO_ERROR, p), w')"
    and h: "h = Some p"
    by (auto split: prod.splits outcome.splits)
  from spawn_detached_success [OF p] h show ?thesis
    by simp
qed

theorem detached_spawn_handle_terminated_witness:
  "GNUPG_PROCESS_DETACHED \<in> {GNUPG_PROCESS_DETACHED}
   \<and> gnupg_process_spawn ''/usr/bin/gpg-agent'' (Some [''--daemon'']) {GNUPG_PROCESS_DETACHED} True
        (example_world\<lparr>answers := [Ok 0, Ok 0, Ok 0, Ok 4243, Waited 4243 0]\<rparr>)
      = (Returns (GPG_ERR_NO_ERROR,
           Some \<lparr>pgmname = ''/usr/bin/gpg-agent'', terminated = True,
                 flags = {GNUPG_PROCESS_DETACHED}, pid = -1,
                 fd_in = -1, fd_out = -1, fd_err = -1, wstatus = -1\<rparr>),
         example_world\<lparr>trace := [Alloc 3, Alloc 1, Getuid, Geteuid,
           Access ''/usr/bin/gpg-agent'', PreSyscall, Fork, PostSyscall,
           PreSyscall, Waitpid 4243 0, PostSyscall]\<rparr>)"
proof -
  have h1: "GNUPG_PROCESS_DETACHED \<in> {GNUPG_PROCESS_DETACHED}"
    by simp
  have h2: "gnupg_process_spawn ''/usr/bin/gpg-agent'' (Some [''--daemon'']) {GNUPG_PROCESS_DETACHED}
        True (example_world\<lparr>answers := [Ok 0, Ok 0, Ok 0, Ok 4243, Waited 4243 0]\<rparr>)
      = (Returns (GPG_ERR_NO_ERROR,
           Some (\<lparr>pgmname = ''/usr/bin/gpg-agent'', terminated = False,
                 flags = {GNUPG_PROCESS_DETACHED}, pid = 0,
                 fd_in = 0, fd_out = 0, fd_err = 0, wstatus = 0\<rparr>
               \<lparr>pid := -1, fd_in := -1, fd_out := -1, fd_err := -1,
                      wstatus := -1, terminated := True\<rparr>)),
         example_world\<lparr>trace := [Alloc 3, Alloc 1, Getuid, Geteuid,
           Access ''/usr/bin/gpg-agent'', PreSyscall, Fork, PostSyscall,
           PreSyscall, Waitpid 4243 0, PostSyscall]\<rparr>)"
    by (simp add: gnupg_process_spawn_def spawn_detached_def xtrycalloc_def xtrymalloc_def
        sys_access_def sys_fork_def sys_waitpid_def next_answer_def called_def pre_syscall_def
        post_syscall_def GNUPG_PROCESS_STDFDS_SETTING_def example_world_def Let_def)
  from detached_spawn_handle_terminated [OF h1 h2] h1 h2 show ?thesis
    by simp
qed

end
